theory Spec2Isabelle
  imports Main "HOL-Library.AList"
begin

section \<open>The in-memory chat server (index.js)\<close>

text \<open>
  The server keeps three global JavaScript \<open>Map\<close>s (\<open>users\<close>, \<open>rooms\<close>,
  \<open>messageHistory\<close>) and, for every socket, the closure variable \<open>currentUser\<close>
  (\<open>null\<close> until the socket sends \<open>set_username\<close>). Every handler is modelled as a
  function from the state to the new state and the list of emitted events, in the order
  of emission. An emission is addressed to a socket id: \<open>socket.emit\<close> addresses the
  handler's own socket, \<open>io.to(id).emit\<close> the socket \<open>id\<close>.

  Names, messages and queries are strings, as the payload shapes of the events say; a
  string is the list of the bytes of its UTF-8 encoding, so a character beyond ASCII is
  two to four bytes, each at least 128. The value \<open>null\<close> of \<open>currentUser\<close> is
  \<open>None\<close>. Clock readings and the random part of a message id are inputs of the handler
  (\<open>env\<close>).
\<close>

type_synonym socket_id = string
type_synonym ident = "string option"

record user_info =
  socketId :: socket_id
  online :: bool
  avatar :: "string option"
  lastSeen :: string
  status :: "string option"

datatype msg_type = type_private | type_group

record payload =
  p_id :: nat
  p_from :: ident
  p_to :: "string option"
  p_roomId :: "string option"
  message :: string
  timestamp :: string
  p_type :: msg_type

record room =
  room_name :: string
  members :: "ident list"
  messages :: "payload list"
  room_type :: msg_type
  createdBy :: ident
  createdAt :: string

record user_entry =
  e_username :: string
  e_online :: bool
  e_lastSeen :: string
  e_avatar :: "string option"
  e_status :: string

datatype outbound =
    message_history "payload list"
  | user_list "user_entry list"
  | receive_private payload
  | message_sent payload
  | receive_group payload
  | group_created string string "ident list" ident
  | search_results "payload list"

type_synonym emission = "socket_id \<times> outbound"

text \<open>
  \<open>now_ms\<close> is \<open>Date.now()\<close>, \<open>now_iso\<close> is \<open>new Date().toISOString()\<close>, \<open>now_hm\<close> is
  the \<open>toLocaleTimeString\<close> reading and \<open>fresh_id\<close> stands for the number
  \<open>Date.now() + Math.random()\<close>.
\<close>

record env =
  now_ms :: nat
  now_iso :: string
  now_hm :: string
  fresh_id :: nat

text \<open>
  A JavaScript \<open>Map\<close> iterates in insertion order, and \<open>set\<close> on an existing key keeps
  the key's position: \<open>AList.update\<close> on an association list. Only \<open>users\<close> is ever
  iterated; \<open>rooms\<close> and \<open>messageHistory\<close> are only read and written by key.
\<close>

record server =
  users :: "(string \<times> user_info) list"
  rooms :: "string \<rightharpoonup> room"
  messageHistory :: "ident \<rightharpoonup> payload list"
  currentUser :: "socket_id \<Rightarrow> ident"

text \<open>The state at server start: the three maps are empty and no socket has a user.\<close>

definition initial :: server where
  "initial = \<lparr>users = [], rooms = Map.empty, messageHistory = Map.empty,
              currentUser = (\<lambda>_. None)\<rparr>"

text \<open>\<open>users.get(k)\<close>; the keys of \<open>users\<close> are strings, so \<open>null\<close> is never found.\<close>

definition users_get :: "(string \<times> user_info) list \<Rightarrow> ident \<Rightarrow> user_info option" where
  "users_get us k = (case k of None \<Rightarrow> None | Some n \<Rightarrow> map_of us n)"

text \<open>\<open>x || d\<close> on an optional string: \<open>undefined\<close>, \<open>null\<close> and \<open>''\<close> are falsy.\<close>

definition or_else :: "string option \<Rightarrow> 'a \<Rightarrow> (string \<Rightarrow> 'a) \<Rightarrow> 'a" where
  "or_else x d f = (case x of None \<Rightarrow> d | Some v \<Rightarrow> if v = [] then d else f v)"

subsection \<open>saveMessage\<close>

text \<open>
  \<^verbatim>\<open>
  function saveMessage(userId, message) {
    if (!messageHistory.has(userId)) messageHistory.set(userId, []);
    const messages = messageHistory.get(userId);
    messages.push(message);
    if (messages.length > 1000) messages.shift();
    messageHistory.set(userId, messages);
  }\<close>
\<close>

definition push_capped :: "payload list \<Rightarrow> payload \<Rightarrow> payload list" where
  "push_capped msgs m =
     (let pushed = msgs @ [m] in if length pushed > 1000 then tl pushed else pushed)"

definition saveMessage :: "ident \<Rightarrow> payload \<Rightarrow> (ident \<rightharpoonup> payload list) \<Rightarrow> (ident \<rightharpoonup> payload list)" where
  "saveMessage userId m mh =
     (let msgs = (case mh userId of None \<Rightarrow> [] | Some l \<Rightarrow> l)
      in mh(userId \<mapsto> push_capped msgs m))"

subsection \<open>sendUserLists\<close>

definition entry :: "string \<times> user_info \<Rightarrow> user_entry" where
  "entry = (\<lambda>(name, info).
     \<lparr>e_username = name, e_online = online info, e_lastSeen = lastSeen info,
      e_avatar = avatar info, e_status = or_else (status info) ''available'' (\<lambda>v. v)\<rparr>)"

definition filteredUsers :: "(string \<times> user_info) list \<Rightarrow> string \<Rightarrow> user_entry list" where
  "filteredUsers us username = map entry (filter (\<lambda>(name, _). name \<noteq> username) us)"

definition sendUserLists :: "(string \<times> user_info) list \<Rightarrow> emission list" where
  "sendUserLists us =
     map (\<lambda>(username, data). (socketId data, user_list (filteredUsers us username))) us"

subsection \<open>The handlers\<close>

definition set_username :: "socket_id \<Rightarrow> string \<Rightarrow> string option \<Rightarrow> env \<Rightarrow> server \<Rightarrow> server \<times> emission list" where
  "set_username sid username av e s =
     (let us = AList.update username
                 \<lparr>socketId = sid, online = True, avatar = or_else av None Some,
                  lastSeen = now_iso e, status = None\<rparr> (users s);
          userMessages = (case messageHistory s (Some username) of None \<Rightarrow> [] | Some l \<Rightarrow> l)
      in (s\<lparr>users := us, currentUser := (currentUser s)(sid := Some username)\<rparr>,
          (sid, message_history userMessages) # sendUserLists us))"

definition private_payload :: "ident \<Rightarrow> string \<Rightarrow> string \<Rightarrow> env \<Rightarrow> payload" where
  "private_payload cu to_name msg e =
     \<lparr>p_id = fresh_id e, p_from = cu, p_to = Some to_name, p_roomId = None,
      message = msg, timestamp = now_hm e, p_type = type_private\<rparr>"

definition send_private :: "socket_id \<Rightarrow> string \<Rightarrow> string \<Rightarrow> env \<Rightarrow> server \<Rightarrow> server \<times> emission list" where
  "send_private sid to_name msg e s =
     (let p = private_payload (currentUser s sid) to_name msg e;
          mh = saveMessage (Some to_name) p (saveMessage (currentUser s sid) p (messageHistory s))
      in (s\<lparr>messageHistory := mh\<rparr>,
          (case map_of (users s) to_name of
             Some target \<Rightarrow> if online target then [(socketId target, receive_private p)] else []
           | None \<Rightarrow> [])
          @ [(sid, message_sent p)]))"

text \<open>
  The loop \<open>list.forEach(member => { const user = users.get(member);
  if (user?.online) io.to(user.socketId).emit(ev) })\<close> of \<open>send_group\<close> and
  \<open>create_group\<close>.
\<close>

fun forEach_emit :: "(string \<times> user_info) list \<Rightarrow> ident list \<Rightarrow> outbound \<Rightarrow> emission list" where
  "forEach_emit us [] ev = []"
| "forEach_emit us (member # rest) ev =
     (case users_get us member of
        Some user \<Rightarrow> if online user then [(socketId user, ev)] else []
      | None \<Rightarrow> [])
     @ forEach_emit us rest ev"

definition group_payload :: "ident \<Rightarrow> string \<Rightarrow> string \<Rightarrow> env \<Rightarrow> payload" where
  "group_payload cu rid msg e =
     \<lparr>p_id = fresh_id e, p_from = cu, p_to = None, p_roomId = Some rid,
      message = msg, timestamp = now_hm e, p_type = type_group\<rparr>"

definition send_group :: "socket_id \<Rightarrow> string \<Rightarrow> string \<Rightarrow> env \<Rightarrow> server \<Rightarrow> server \<times> emission list" where
  "send_group sid rid msg e s =
     (case rooms s rid of
        None \<Rightarrow> (s, [])
      | Some r \<Rightarrow>
          if currentUser s sid \<notin> set (members r) then (s, [])
          else
            let p = group_payload (currentUser s sid) rid msg e
            in (s\<lparr>rooms := (rooms s)(rid \<mapsto> r\<lparr>messages := messages r @ [p]\<rparr>)\<rparr>,
                forEach_emit (users s) (members r) (receive_group p)))"

text \<open>Decimal digits of a number, for the template string \<open>`group_${Date.now()}`\<close>.\<close>

definition digit :: "nat \<Rightarrow> char" where
  "digit d = ''0123456789'' ! d"

fun show_nat :: "nat \<Rightarrow> string" where
  "show_nat n =
     (if n < 10 then [digit n] else show_nat (n div 10) @ [digit (n mod 10)])"

declare show_nat.simps [simp del]

definition create_group :: "socket_id \<Rightarrow> string \<Rightarrow> string list \<Rightarrow> env \<Rightarrow> server \<Rightarrow> server \<times> emission list" where
  "create_group sid groupName ms e s =
     (let rid = ''group_'' @ show_nat (now_ms e);
          allMembers = map Some ms @ [currentUser s sid]
      in (s\<lparr>rooms := (rooms s)(rid \<mapsto>
             \<lparr>room_name = groupName, members = allMembers, messages = [],
              room_type = type_group, createdBy = currentUser s sid, createdAt = now_iso e\<rparr>)\<rparr>,
          forEach_emit (users s) allMembers
            (group_created rid groupName allMembers (currentUser s sid))))"

text \<open>
  \<open>if (currentUser && users.has(currentUser))\<close>: \<open>null\<close> and the empty string are
  falsy.
\<close>

definition known_user :: "server \<Rightarrow> socket_id \<Rightarrow> (string \<times> user_info) option" where
  "known_user s sid =
     (case currentUser s sid of
        None \<Rightarrow> None
      | Some n \<Rightarrow> if n = [] then None
                  else (case map_of (users s) n of None \<Rightarrow> None | Some u \<Rightarrow> Some (n, u)))"

definition update_status :: "socket_id \<Rightarrow> string \<Rightarrow> server \<Rightarrow> server \<times> emission list" where
  "update_status sid st s =
     (case known_user s sid of
        None \<Rightarrow> (s, [])
      | Some (n, u) \<Rightarrow>
          let us = AList.update n (u\<lparr>status := Some st\<rparr>) (users s)
          in (s\<lparr>users := us\<rparr>, sendUserLists us))"

definition disconnect :: "socket_id \<Rightarrow> env \<Rightarrow> server \<Rightarrow> server \<times> emission list" where
  "disconnect sid e s =
     (case known_user s sid of
        None \<Rightarrow> (s, [])
      | Some (n, u) \<Rightarrow>
          let us = AList.update n (u\<lparr>online := False, lastSeen := now_iso e\<rparr>) (users s)
          in (s\<lparr>users := us\<rparr>, sendUserLists us))"

subsection \<open>search_messages\<close>

text \<open>
  \<open>String.prototype.includes\<close> as a scan over the start positions.
\<close>

fun startsWith :: "'a list \<Rightarrow> 'a list \<Rightarrow> bool" where
  "startsWith s [] = True"
| "startsWith [] (q # qs) = False"
| "startsWith (c # cs) (q # qs) = (c = q \<and> startsWith cs qs)"

fun includes_js :: "'a list \<Rightarrow> 'a list \<Rightarrow> bool" where
  "includes_js [] q = (q = [])"
| "includes_js (c # cs) q = (startsWith (c # cs) q \<or> includes_js cs q)"

text \<open>
  \<open>String.prototype.toLowerCase\<close> is the Unicode case conversion of the JavaScript
  engine. On a string of ASCII characters only, no rule of the Unicode tables applies but
  the simple one: the letters \<open>A\<close> to \<open>Z\<close> become \<open>a\<close> to \<open>z\<close> and every other
  character stays (\<open>lower_char\<close>). The Unicode tables are not part of the repository:
  on a string with any other character the conversion is the parameter \<open>engine\<close>, which
  every function that lowers a string takes.
\<close>

definition is_ascii :: "string \<Rightarrow> bool" where
  "is_ascii s = list_all (\<lambda>c. (of_char c :: nat) < 128) s"

definition lower_char :: "char \<Rightarrow> char" where
  "lower_char c =
     (case map_of (zip ''ABCDEFGHIJKLMNOPQRSTUVWXYZ'' ''abcdefghijklmnopqrstuvwxyz'') c of
        Some l \<Rightarrow> l
      | None \<Rightarrow> c)"

definition toLowerCase :: "(string \<Rightarrow> string) \<Rightarrow> string \<Rightarrow> string" where
  "toLowerCase engine s = (if is_ascii s then map lower_char s else engine s)"

definition search_messages ::
  "(string \<Rightarrow> string) \<Rightarrow> socket_id \<Rightarrow> string \<Rightarrow> server \<Rightarrow> server \<times> emission list" where
  "search_messages engine sid query s =
     (let userMessages = (case messageHistory s (currentUser s sid) of None \<Rightarrow> [] | Some l \<Rightarrow> l);
          filteredMessages =
            filter (\<lambda>msg. includes_js (toLowerCase engine (message msg))
                                      (toLowerCase engine query)) userMessages
      in (s, [(sid, search_results filteredMessages)]))"

subsection \<open>Event traces\<close>

text \<open>
  The inbound events of a socket, and the server run on a trace of events, each with the
  socket it arrives on and the clock readings of its handler. Every reachable state is
  \<open>fst (run trace initial)\<close> for some trace: \<open>search_messages\<close> only reads the state,
  so a trace needs no search event.
\<close>

datatype inbound =
    ev_set_username string "string option"
  | ev_send_private string string
  | ev_send_group string string
  | ev_create_group string "string list"
  | ev_update_status string
  | ev_disconnect

fun handle :: "socket_id \<Rightarrow> inbound \<Rightarrow> env \<Rightarrow> server \<Rightarrow> server \<times> emission list" where
  "handle sid (ev_set_username username av) e s = set_username sid username av e s"
| "handle sid (ev_send_private to_name msg) e s = send_private sid to_name msg e s"
| "handle sid (ev_send_group rid msg) e s = send_group sid rid msg e s"
| "handle sid (ev_create_group groupName ms) e s = create_group sid groupName ms e s"
| "handle sid (ev_update_status st) e s = update_status sid st s"
| "handle sid ev_disconnect e s = disconnect sid e s"

fun run :: "(socket_id \<times> inbound \<times> env) list \<Rightarrow> server \<Rightarrow> server \<times> emission list" where
  "run [] s = (s, [])"
| "run ((sid, ev, e) # rest) s =
     (let r1 = handle sid ev e s; r2 = run rest (fst r1) in (fst r2, snd r1 @ snd r2))"

text \<open>
  The environment of the concrete runs below: at time \<open>n\<close> every clock reading, and the
  message id, is the number \<open>n\<close>.
\<close>

definition at_time :: "nat \<Rightarrow> env" where
  "at_time n = \<lparr>now_ms = n, now_iso = show_nat n, now_hm = show_nat n, fresh_id = n\<rparr>"

section \<open>The database-backed server\<close>

text \<open>
  The second server keeps users, rooms and messages behind \<open>userRepository\<close>,
  \<open>roomRepository\<close> and \<open>messageRepository\<close>, and the live sockets in the \<open>Map\<close>
  \<open>connectedUsers\<close> (user id to socket id). The repository classes are not among the
  sources, so the handlers take them as a parameter: a record of functions over an
  abstract database \<open>'db\<close>. A call that rejects is \<open>Inl\<close> of the failure; every handler
  catches it (\<open>try { ... } catch (error) { ... }\<close>). Each handler is one atomic step:
  what other handlers do between two \<open>await\<close>s is outside the model. The field
  \<open>r_f\<close> of the record stands for the repository method \<open>f\<close> (\<open>r_create_message\<close>
  for \<open>messageRepository.create\<close>, \<open>r_create_room\<close> for \<open>roomRepository.create\<close>).

  The user of a socket is fixed by the authentication middleware (\<open>socket.user\<close>).
  \<open>socket.emit\<close> and \<open>io.to(id).emit\<close> address one socket, \<open>io.emit\<close> all of them.
  The handlers of this server carry the prefix \<open>db_\<close>, since both servers name their
  events alike.
\<close>

datatype failure = ValidationError | NotFoundError | PersistenceError

record user_row =
  row_id :: nat
  row_username :: string

datatype content_type = text_message | file_message

record message_data =
  md_room_id :: nat
  md_user_id :: nat
  md_content :: string
  md_message_type :: content_type
  md_file_data :: "string option"

record room_data =
  rd_name :: string
  rd_type :: msg_type
  rd_created_by :: nat

text \<open>
  The object \<open>messageData\<close> that \<open>send_private\<close> and \<open>send_group\<close> build:
  \<open>message_type: fileData ? 'file' : 'text'\<close> and \<open>file_data: fileData || null\<close>, where
  an absent and an empty \<open>fileData\<close> are falsy.
\<close>

definition messageData :: "nat \<Rightarrow> nat \<Rightarrow> string \<Rightarrow> string option \<Rightarrow> message_data" where
  "messageData room uid msg fileData =
     \<lparr>md_room_id = room, md_user_id = uid, md_content = msg,
      md_message_type = or_else fileData text_message (\<lambda>_. file_message),
      md_file_data = or_else fileData None Some\<rparr>"

record 'db repositories =
  r_findByUsername :: "string \<Rightarrow> 'db \<Rightarrow> failure + user_row option"
  r_findOnlineUsers :: "'db \<Rightarrow> failure + user_row list"
  r_updateOnlineStatus :: "nat \<Rightarrow> bool \<Rightarrow> 'db \<Rightarrow> failure + 'db"
  r_createOrFindPrivateRoom :: "nat \<Rightarrow> nat \<Rightarrow> 'db \<Rightarrow> failure + nat \<times> 'db"
  r_create_room :: "room_data \<Rightarrow> 'db \<Rightarrow> failure + nat \<times> 'db"
  r_addMember :: "nat \<Rightarrow> nat \<Rightarrow> 'db \<Rightarrow> failure + 'db"
  r_isMember :: "nat \<Rightarrow> nat \<Rightarrow> 'db \<Rightarrow> failure + bool"
  r_getRoomMembers :: "nat \<Rightarrow> 'db \<Rightarrow> failure + user_row list"
  r_create_message :: "message_data \<Rightarrow> 'db \<Rightarrow> failure + nat \<times> 'db"

record db_payload =
  dp_id :: nat
  dp_from :: string
  dp_to :: "string option"
  dp_roomId :: "nat option"
  dp_message :: string
  dp_fileData :: "string option"
  dp_timestamp :: string
  dp_type :: msg_type

text \<open>
  The texts of the \<open>error\<close> events: \<open>user_not_found\<close> is "Usuario nao encontrado",
  \<open>not_a_member\<close> is "Voce nao e membro deste grupo", \<open>send_failed\<close> is "Erro ao
  enviar mensagem", \<open>create_failed\<close> is "Erro ao criar grupo". The events carry the
  text only, no code.
\<close>

datatype error_text = user_not_found | not_a_member | send_failed | create_failed

datatype db_outbound =
    db_error error_text
  | db_user_list "user_row list"
  | db_receive_private db_payload
  | db_message_sent db_payload
  | db_receive_group db_payload
  | db_group_created nat string "string list" string

datatype target = to_socket socket_id | to_all

type_synonym db_emission = "target \<times> db_outbound"

record 'db db_server =
  database :: 'db
  connectedUsers :: "nat \<rightharpoonup> socket_id"

definition broadcastUsersList :: "'db repositories \<Rightarrow> 'db \<Rightarrow> db_emission list" where
  "broadcastUsersList R d =
     (case r_findOnlineUsers R d of
        Inl _ \<Rightarrow> []
      | Inr onlineUsers \<Rightarrow> [(to_all, db_user_list onlineUsers)])"

definition db_send_private ::
  "'db repositories \<Rightarrow> socket_id \<Rightarrow> user_row \<Rightarrow> string \<Rightarrow> string \<Rightarrow> string option \<Rightarrow> env
     \<Rightarrow> 'db db_server \<Rightarrow> 'db db_server \<times> db_emission list" where
  "db_send_private R sid user to_name msg fileData e st =
     (case r_findByUsername R to_name (database st) of
        Inl _ \<Rightarrow> (st, [(to_socket sid, db_error send_failed)])
      | Inr None \<Rightarrow> (st, [(to_socket sid, db_error user_not_found)])
      | Inr (Some targetUser) \<Rightarrow>
          (case r_createOrFindPrivateRoom R (row_id user) (row_id targetUser) (database st) of
             Inl _ \<Rightarrow> (st, [(to_socket sid, db_error send_failed)])
           | Inr (room, d1) \<Rightarrow>
               (case r_create_message R (messageData room (row_id user) msg fileData) d1 of
                  Inl _ \<Rightarrow> (st\<lparr>database := d1\<rparr>, [(to_socket sid, db_error send_failed)])
                | Inr (saved, d2) \<Rightarrow>
                    let p = \<lparr>dp_id = saved, dp_from = row_username user, dp_to = Some to_name,
                             dp_roomId = None, dp_message = msg, dp_fileData = fileData,
                             dp_timestamp = now_hm e, dp_type = type_private\<rparr>
                    in (st\<lparr>database := d2\<rparr>,
                        (case connectedUsers st (row_id targetUser) of
                           Some targetSocketId \<Rightarrow> [(to_socket targetSocketId, db_receive_private p)]
                         | None \<Rightarrow> [])
                        @ [(to_socket sid, db_message_sent p)]))))"

fun db_forEach_emit :: "(nat \<rightharpoonup> socket_id) \<Rightarrow> user_row list \<Rightarrow> db_outbound \<Rightarrow> db_emission list" where
  "db_forEach_emit cu [] ev = []"
| "db_forEach_emit cu (member # rest) ev =
     (case cu (row_id member) of
        Some memberSocketId \<Rightarrow> [(to_socket memberSocketId, ev)]
      | None \<Rightarrow> [])
     @ db_forEach_emit cu rest ev"

definition db_send_group ::
  "'db repositories \<Rightarrow> socket_id \<Rightarrow> user_row \<Rightarrow> nat \<Rightarrow> string \<Rightarrow> string option \<Rightarrow> env
     \<Rightarrow> 'db db_server \<Rightarrow> 'db db_server \<times> db_emission list" where
  "db_send_group R sid user rid msg fileData e st =
     (case r_isMember R rid (row_id user) (database st) of
        Inl _ \<Rightarrow> (st, [(to_socket sid, db_error send_failed)])
      | Inr False \<Rightarrow> (st, [(to_socket sid, db_error not_a_member)])
      | Inr True \<Rightarrow>
          (case r_create_message R (messageData rid (row_id user) msg fileData) (database st) of
             Inl _ \<Rightarrow> (st, [(to_socket sid, db_error send_failed)])
           | Inr (saved, d1) \<Rightarrow>
               (case r_getRoomMembers R rid d1 of
                  Inl _ \<Rightarrow> (st\<lparr>database := d1\<rparr>, [(to_socket sid, db_error send_failed)])
                | Inr ms \<Rightarrow>
                    (st\<lparr>database := d1\<rparr>,
                     db_forEach_emit (connectedUsers st) ms
                       (db_receive_group
                          \<lparr>dp_id = saved, dp_from = row_username user, dp_to = None,
                           dp_roomId = Some rid, dp_message = msg, dp_fileData = fileData,
                           dp_timestamp = now_hm e, dp_type = type_group\<rparr>)))))"

text \<open>
  The loop of \<open>create_group\<close> over the member names: a name that resolves is added to
  the room and notified if connected, a name that does not resolve is skipped, and a call
  that rejects ends the loop (\<open>False\<close>) with the database and the notifications so far.
\<close>

fun db_add_members ::
  "'db repositories \<Rightarrow> (nat \<rightharpoonup> socket_id) \<Rightarrow> nat \<Rightarrow> db_outbound \<Rightarrow> string list \<Rightarrow> 'db
     \<Rightarrow> bool \<times> 'db \<times> db_emission list" where
  "db_add_members R cu room ev [] d = (True, d, [])"
| "db_add_members R cu room ev (memberUsername # rest) d =
     (case r_findByUsername R memberUsername d of
        Inl _ \<Rightarrow> (False, d, [])
      | Inr None \<Rightarrow> db_add_members R cu room ev rest d
      | Inr (Some member) \<Rightarrow>
          (case r_addMember R room (row_id member) d of
             Inl _ \<Rightarrow> (False, d, [])
           | Inr d1 \<Rightarrow>
               (case db_add_members R cu room ev rest d1 of
                  (ok, d2, out) \<Rightarrow>
                    (ok, d2,
                     (case cu (row_id member) of
                        Some memberSocketId \<Rightarrow> [(to_socket memberSocketId, ev)]
                      | None \<Rightarrow> [])
                     @ out))))"

definition db_create_group ::
  "'db repositories \<Rightarrow> socket_id \<Rightarrow> user_row \<Rightarrow> string \<Rightarrow> string list
     \<Rightarrow> 'db db_server \<Rightarrow> 'db db_server \<times> db_emission list" where
  "db_create_group R sid user groupName ms st =
     (case r_create_room R
             \<lparr>rd_name = groupName, rd_type = type_group, rd_created_by = row_id user\<rparr>
             (database st) of
        Inl _ \<Rightarrow> (st, [(to_socket sid, db_error create_failed)])
      | Inr (room, d1) \<Rightarrow>
          (case r_addMember R room (row_id user) d1 of
             Inl _ \<Rightarrow> (st\<lparr>database := d1\<rparr>, [(to_socket sid, db_error create_failed)])
           | Inr d2 \<Rightarrow>
               (case db_add_members R (connectedUsers st) room
                       (db_group_created room groupName (row_username user # ms)
                          (row_username user)) ms d2 of
                  (ok, d3, out) \<Rightarrow>
                    (st\<lparr>database := d3\<rparr>,
                     out @ [(to_socket sid,
                             if ok then db_group_created room groupName (row_username user # ms)
                                          (row_username user)
                             else db_error create_failed)]))))"

definition db_disconnect ::
  "'db repositories \<Rightarrow> socket_id \<Rightarrow> user_row \<Rightarrow> 'db db_server \<Rightarrow> 'db db_server \<times> db_emission list" where
  "db_disconnect R sid user st =
     (case r_updateOnlineStatus R (row_id user) False (database st) of
        Inl _ \<Rightarrow> (st, [])
      | Inr d1 \<Rightarrow>
          (st\<lparr>database := d1, connectedUsers := (connectedUsers st)(row_id user := None)\<rparr>,
           broadcastUsersList R d1))"

text \<open>What a connected socket receives of a list of emissions.\<close>

definition received :: "socket_id \<Rightarrow> db_emission list \<Rightarrow> db_outbound list" where
  "received sid out = map snd (filter (\<lambda>x. fst x = to_all \<or> fst x = to_socket sid) out)"

section \<open>The repositories, from the specification\<close>

text \<open>
  The classes \<open>UserRepository\<close>, \<open>RoomRepository\<close> and \<open>MessageRepository\<close> are
  missing from the sources. This section gives them a small database and the behaviour the
  specification words for them; \<open>spec_repositories\<close> is then one value of the parameter
  of the handlers above.
\<close>

text \<open>
  Modelled from the spec: the room table (missing: the \<open>rooms\<close> and \<open>room_members\<close>
  access of \<open>RoomRepository\<close>). A room has an identity, a kind and a member set.
\<close>

record chat_room =
  cr_id :: nat
  cr_kind :: msg_type
  cr_members :: "nat list"

text \<open>
  Modelled from the spec: the stored state behind the three repositories (missing: the
  repository classes). A user has a stable id, a unique username and a presence flag;
  messages carry the id that \<open>append\<close> assigned.
\<close>

record database =
  db_users :: "(user_row \<times> bool) list"
  db_rooms :: "chat_room list"
  db_messages :: "(nat \<times> message_data) list"

text \<open>
  Modelled from the spec: \<open>UserRepository.findByUsername\<close> (missing). It resolves a
  username to its user, and to nothing when the name is absent.
\<close>

definition findByUsername :: "string \<Rightarrow> database \<Rightarrow> failure + user_row option" where
  "findByUsername n d = Inr (find (\<lambda>u. row_username u = n) (map fst (db_users d)))"

text \<open>
  Modelled from the spec: \<open>UserRepository.findOnlineUsers\<close> (missing). The
  specification has no operation of this name; as the name says, the users whose presence
  flag is set.
\<close>

definition findOnlineUsers :: "database \<Rightarrow> failure + user_row list" where
  "findOnlineUsers d = Inr (map fst (filter snd (db_users d)))"

text \<open>
  Modelled from the spec: \<open>UserRepository.updateOnlineStatus\<close> (missing). It sets the
  presence flag of the user.
\<close>

definition updateOnlineStatus :: "nat \<Rightarrow> bool \<Rightarrow> database \<Rightarrow> failure + database" where
  "updateOnlineStatus uid b d =
     Inr (d\<lparr>db_users := map (\<lambda>(u, on). if row_id u = uid then (u, b) else (u, on)) (db_users d)\<rparr>)"

text \<open>
  Modelled from the spec: the key of a private room (missing: \<open>RoomRepository\<close>). A
  private room is keyed by the unordered pair of its two participants.
\<close>

definition private_room_of :: "nat \<Rightarrow> nat \<Rightarrow> chat_room \<Rightarrow> bool" where
  "private_room_of a b r = (cr_kind r = type_private \<and> set (cr_members r) = {a, b})"

text \<open>
  Modelled from the spec: the identity of a new room (missing: \<open>RoomRepository\<close>), one
  more than every id in use.
\<close>

definition fresh_room_id :: "chat_room list \<Rightarrow> nat" where
  "fresh_room_id rs = Suc (foldr max (map cr_id rs) 0)"

text \<open>
  Modelled from the spec: \<open>RoomRepository.createOrFindPrivateRoom\<close> (missing). Repeated
  calls with the same unordered pair return the same room id and never create a duplicate;
  it fails with \<open>ValidationError\<close> if the two users are the same.
\<close>

definition createOrFindPrivateRoom :: "nat \<Rightarrow> nat \<Rightarrow> database \<Rightarrow> failure + nat \<times> database" where
  "createOrFindPrivateRoom userA userB d =
     (if userA = userB then Inl ValidationError
      else (case find (private_room_of userA userB) (db_rooms d) of
              Some r \<Rightarrow> Inr (cr_id r, d)
            | None \<Rightarrow>
                let i = fresh_room_id (db_rooms d)
                in Inr (i, d\<lparr>db_rooms := db_rooms d @
                                 [\<lparr>cr_id = i, cr_kind = type_private, cr_members = [userA, userB]\<rparr>]\<rparr>)))"

text \<open>
  Modelled from the spec: \<open>RoomRepository.create\<close> (missing). The specification has no
  operation that creates a room without members; the handler adds them one by one
  afterwards, so the new room starts with none.
\<close>

definition create_room :: "room_data \<Rightarrow> database \<Rightarrow> failure + nat \<times> database" where
  "create_room rd d =
     (let i = fresh_room_id (db_rooms d)
      in Inr (i, d\<lparr>db_rooms := db_rooms d @ [\<lparr>cr_id = i, cr_kind = rd_type rd, cr_members = []\<rparr>]\<rparr>))"

text \<open>
  Modelled from the spec: \<open>RoomRepository.addMember\<close> (missing). It is idempotent and
  fails with \<open>NotFoundError\<close> for an unknown room.
\<close>

definition addMember :: "nat \<Rightarrow> nat \<Rightarrow> database \<Rightarrow> failure + database" where
  "addMember rid uid d =
     (case find (\<lambda>r. cr_id r = rid) (db_rooms d) of
        None \<Rightarrow> Inl NotFoundError
      | Some _ \<Rightarrow>
          Inr (d\<lparr>db_rooms :=
                   map (\<lambda>r. if cr_id r = rid \<and> uid \<notin> set (cr_members r)
                             then r\<lparr>cr_members := cr_members r @ [uid]\<rparr> else r)
                       (db_rooms d)\<rparr>))"

text \<open>
  Modelled from the spec: \<open>RoomRepository.isMember\<close> (missing). It is false, not an
  error, for an unknown room.
\<close>

definition isMember :: "nat \<Rightarrow> nat \<Rightarrow> database \<Rightarrow> failure + bool" where
  "isMember rid uid d =
     Inr (case find (\<lambda>r. cr_id r = rid) (db_rooms d) of
            None \<Rightarrow> False
          | Some r \<Rightarrow> uid \<in> set (cr_members r))"

text \<open>
  Modelled from the spec: \<open>RoomRepository.getRoomMembers\<close> (missing), the
  specification's \<open>members\<close>. It fails with \<open>NotFoundError\<close> for an unknown room.
\<close>

definition getRoomMembers :: "nat \<Rightarrow> database \<Rightarrow> failure + user_row list" where
  "getRoomMembers rid d =
     (case find (\<lambda>r. cr_id r = rid) (db_rooms d) of
        None \<Rightarrow> Inl NotFoundError
      | Some r \<Rightarrow> Inr (filter (\<lambda>u. row_id u \<in> set (cr_members r)) (map fst (db_users d))))"

text \<open>
  Modelled from the spec: \<open>MessageRepository.create\<close> (missing), the specification's
  \<open>append\<close>. The assigned id is unique and increasing, and the oldest message of the
  conversation is evicted when the conversation exceeds the capacity 1000.
\<close>

definition create_message :: "message_data \<Rightarrow> database \<Rightarrow> failure + nat \<times> database" where
  "create_message md d =
     (let i = Suc (foldr max (map fst (db_messages d)) 0);
          pushed = db_messages d @ [(i, md)];
          conversation = filter (\<lambda>x. md_room_id (snd x) = md_room_id md) pushed
      in Inr (i, d\<lparr>db_messages :=
                      (if length conversation > 1000 then remove1 (hd conversation) pushed
                       else pushed)\<rparr>))"

text \<open>
  Modelled from the spec: the three repositories together, as the handlers take them.
\<close>

definition spec_repositories :: "database repositories" where
  "spec_repositories =
     \<lparr>r_findByUsername = findByUsername, r_findOnlineUsers = findOnlineUsers,
      r_updateOnlineStatus = updateOnlineStatus,
      r_createOrFindPrivateRoom = createOrFindPrivateRoom,
      r_create_room = create_room, r_addMember = addMember, r_isMember = isMember,
      r_getRoomMembers = getRoomMembers, r_create_message = create_message\<rparr>"

section \<open>Properties and concrete states used below\<close>

text \<open>Every stored inbox holds at most 1000 messages.\<close>

definition inbox_bounded :: "server \<Rightarrow> bool" where
  "inbox_bounded s = (\<forall>k l. messageHistory s k = Some l \<longrightarrow> length l \<le> 1000)"

text \<open>
  User \<open>A\<close> registers on socket \<open>s1\<close> and creates the group \<open>devs\<close> with \<open>B\<close>; the
  room id is \<open>group_2\<close>, from the clock reading 2.
\<close>

definition room_state :: server where
  "room_state = fst (run [(''s1'', ev_set_username ''A'' None, at_time 1),
                          (''s1'', ev_create_group ''devs'' [''B''], at_time 2)] initial)"

text \<open>
  The users \<open>A\<close>, \<open>B\<close> (connected on the sockets \<open>s1\<close>, \<open>s2\<close>) and \<open>C\<close> (not
  connected), and the group room 1 of \<open>A\<close> and \<open>B\<close>.
\<close>

definition example_db :: "database db_server" where
  "example_db =
     \<lparr>database =
        \<lparr>db_users = [(\<lparr>row_id = 1, row_username = ''A''\<rparr>, True),
                      (\<lparr>row_id = 2, row_username = ''B''\<rparr>, True),
                      (\<lparr>row_id = 3, row_username = ''C''\<rparr>, False)],
         db_rooms = [\<lparr>cr_id = 1, cr_kind = type_group, cr_members = [1, 2]\<rparr>],
         db_messages = []\<rparr>,
      connectedUsers = [1 \<mapsto> ''s1'', 2 \<mapsto> ''s2'']\<rparr>"

text \<open>
  The specification's reading of "the content contains \<open>q\<close> as a case-insensitive
  substring": some stretch of the content has the length of \<open>q\<close> and agrees with it
  character by character up to the case of letters. Two characters agree up to case when
  they are equal or one is a capital letter, code 65 to 90, and the other has its code
  plus 32, the small letter; this is stated by the codes, not by the conversion that the
  program uses.
\<close>

definition is_upper :: "char \<Rightarrow> bool" where
  "is_upper c = (65 \<le> (of_char c :: nat) \<and> (of_char c :: nat) \<le> 90)"

definition same_letter :: "char \<Rightarrow> char \<Rightarrow> bool" where
  "same_letter a b =
     (a = b \<or> (is_upper a \<and> (of_char b :: nat) = of_char a + 32)
            \<or> (is_upper b \<and> (of_char a :: nat) = of_char b + 32))"

definition contains_ignoring_case :: "string \<Rightarrow> string \<Rightarrow> bool" where
  "contains_ignoring_case content q =
     (\<exists>before mid after. content = before @ mid @ after \<and> list_all2 same_letter mid q)"

text \<open>
  What the conversion of an engine gives on two strings, by the rule of ECMAScript for
  the capital sigma (Final_Sigma of the Unicode special casing): \<open>A\<close> followed by the
  capital sigma (bytes CE A3) becomes \<open>a\<close> followed by the final small sigma (CF 82),
  and the capital sigma alone becomes the small sigma (CF 83). No other string is used
  below.
\<close>

definition sigma_engine :: "string \<Rightarrow> string" where
  "sigma_engine s =
     (if s = [CHR ''A'', CHR 0xCE, CHR 0xA3] then [CHR ''a'', CHR 0xCF, CHR 0x82]
      else if s = [CHR 0xCE, CHR 0xA3] then [CHR 0xCF, CHR 0x83]
      else s)"

text \<open>The stored history of a key, empty when the key has none.\<close>

definition inbox :: "server \<Rightarrow> ident \<Rightarrow> payload list" where
  "inbox s k = (case messageHistory s k of None \<Rightarrow> [] | Some l \<Rightarrow> l)"

text \<open>
  Whether the member is marked online in \<open>users\<close>, and the socket stored for it.
\<close>

definition online_user :: "(string \<times> user_info) list \<Rightarrow> ident \<Rightarrow> bool" where
  "online_user us m = (case users_get us m of None \<Rightarrow> False | Some u \<Rightarrow> online u)"

definition socket_of :: "(string \<times> user_info) list \<Rightarrow> ident \<Rightarrow> socket_id" where
  "socket_of us m = (case users_get us m of None \<Rightarrow> [] | Some u \<Rightarrow> socketId u)"

text \<open>
  After the group \<open>devs\<close> of \<open>A\<close> and \<open>B\<close> exists, \<open>C\<close> registers on socket
  \<open>s3\<close>; \<open>C\<close> is not a member of the room.
\<close>

definition outsider_state :: server where
  "outsider_state = fst (run [(''s1'', ev_set_username ''A'' None, at_time 1),
                              (''s1'', ev_create_group ''devs'' [''B''], at_time 2),
                              (''s3'', ev_set_username ''C'' None, at_time 3)] initial)"

text \<open>
  \<open>A\<close> registers on socket \<open>s1\<close> and then again on socket \<open>s2\<close> (a second tab);
  in \<open>stale_state\<close> the first socket has disconnected since.
\<close>

definition two_tabs :: server where
  "two_tabs = fst (run [(''s1'', ev_set_username ''A'' None, at_time 1),
                        (''s2'', ev_set_username ''A'' None, at_time 2)] initial)"

definition stale_state :: server where
  "stale_state = fst (run [(''s1'', ev_set_username ''A'' None, at_time 1),
                           (''s2'', ev_set_username ''A'' None, at_time 2),
                           (''s1'', ev_disconnect, at_time 3)] initial)"

text \<open>
  The guard of \<open>send_group\<close>: the room is unknown or the sender is not in its member
  list.
\<close>

definition not_member :: "server \<Rightarrow> socket_id \<Rightarrow> string \<Rightarrow> bool" where
  "not_member s sid rid =
     (case rooms s rid of None \<Rightarrow> True | Some r \<Rightarrow> currentUser s sid \<notin> set (members r))"

text \<open>
  \<open>A\<close>, \<open>B\<close> and \<open>C\<close> register on the sockets \<open>s1\<close>, \<open>s2\<close> and \<open>s3\<close>, \<open>A\<close> creates
  the group \<open>devs\<close> with \<open>B\<close> and \<open>C\<close> (room id \<open>group_4\<close>), and \<open>C\<close> disconnects.
\<close>

definition devs_online :: server where
  "devs_online = fst (run [(''s1'', ev_set_username ''A'' None, at_time 1),
                           (''s2'', ev_set_username ''B'' None, at_time 2),
                           (''s3'', ev_set_username ''C'' None, at_time 3),
                           (''s1'', ev_create_group ''devs'' [''B'', ''C''], at_time 4),
                           (''s3'', ev_disconnect, at_time 5)] initial)"

text \<open>
  \<open>A\<close> registers and creates a group whose member list names \<open>A\<close> itself: the room
  \<open>group_2\<close> lists \<open>A\<close> twice.
\<close>

definition twice_listed :: server where
  "twice_listed = fst (run [(''s1'', ev_set_username ''A'' None, at_time 1),
                            (''s1'', ev_create_group ''self'' [''A''], at_time 2)] initial)"

text \<open>
  \<open>A\<close> registers and writes \<open>first\<close> to \<open>B\<close>: the history of \<open>A\<close> holds one
  message.
\<close>

definition noted_state :: server where
  "noted_state = fst (run [(''s1'', ev_set_username ''A'' None, at_time 1),
                           (''s1'', ev_send_private ''B'' ''first'', at_time 2)] initial)"

text \<open>\<open>A\<close> registers and writes three messages to \<open>B\<close>.\<close>

definition chat_state :: server where
  "chat_state = fst (run [(''s1'', ev_set_username ''A'' None, at_time 1),
                          (''s1'', ev_send_private ''B'' ''Hi there'', at_time 2),
                          (''s1'', ev_send_private ''B'' ''bye'', at_time 3),
                          (''s1'', ev_send_private ''B'' ''oh HI'', at_time 4)] initial)"

text \<open>
  \<open>A\<close> registers and writes to \<open>B\<close> the message \<open>A\<close> followed by the capital
  sigma.
\<close>

definition sigma_state :: server where
  "sigma_state = fst (run [(''s1'', ev_set_username ''A'' None, at_time 1),
                           (''s1'', ev_send_private ''B'' [CHR ''A'', CHR 0xCE, CHR 0xA3],
                            at_time 2)] initial)"

text \<open>
  The repositories of the section above with a user repository whose
  \<open>updateOnlineStatus\<close> rejects.
\<close>

definition rejecting_repositories :: "database repositories" where
  "rejecting_repositories =
     spec_repositories\<lparr>r_updateOnlineStatus := (\<lambda>uid b d. Inl PersistenceError)\<rparr>"

section \<open>Evaluation of concrete runs\<close>

lemmas run_defs = initial_def at_time_def show_nat.simps digit_def set_username_def
  create_group_def send_group_def send_private_def disconnect_def known_user_def
  sendUserLists_def filteredUsers_def entry_def or_else_def users_get_def Let_def
  private_payload_def group_payload_def saveMessage_def push_capped_def

section \<open>Bounded history\<close>

lemma push_capped_length: "length msgs \<le> 1000 \<Longrightarrow> length (push_capped msgs m) \<le> 1000"
  by (simp add: push_capped_def Let_def)

lemma push_capped_drop:
  "length msgs \<le> 1000 \<Longrightarrow> push_capped msgs m = drop (length msgs + 1 - 1000) (msgs @ [m])"
  by (cases msgs) (auto simp: push_capped_def Let_def drop_Cons')

lemma push_capped_last: "push_capped msgs m \<noteq> [] \<and> last (push_capped msgs m) = m"
  by (cases msgs) (simp_all add: push_capped_def Let_def)

text \<open>
  The inbox after a run of \<open>saveMessage\<close> calls is the last 1000 entries of everything
  pushed: the oldest entries are the ones dropped.
\<close>

lemma drop_capacity_step:
  "drop (length (drop (length xs - 1000) xs) + 1 - 1000) (drop (length xs - 1000) (xs @ [m]))
     = drop (length xs + 1 - 1000) (xs @ [m])"
proof -
  have "length (drop (length xs - 1000) xs) + 1 - 1000 + (length xs - 1000) = length xs + 1 - 1000"
    by simp
  then show ?thesis
    by (simp only: drop_drop)
qed

lemma push_capped_fold:
  "length l \<le> 1000 \<Longrightarrow>
   fold (\<lambda>m acc. push_capped acc m) ms l = drop (length l + length ms - 1000) (l @ ms)"
proof (induction ms rule: rev_induct)
  case Nil
  then show ?case by simp
next
  case (snoc m ms)
  let ?xs = "l @ ms"
  let ?k = "length ?xs - 1000"
  have len: "length (drop ?k ?xs) \<le> 1000"
    by simp
  have "fold (\<lambda>m acc. push_capped acc m) (ms @ [m]) l = push_capped (drop ?k ?xs) m"
    using snoc by simp
  also have "\<dots> = drop (length (drop ?k ?xs) + 1 - 1000) (drop ?k ?xs @ [m])"
    by (rule push_capped_drop[OF len])
  also have "drop ?k ?xs @ [m] = drop ?k (?xs @ [m])"
    by simp
  also have "drop (length (drop ?k ?xs) + 1 - 1000) (drop ?k (?xs @ [m]))
               = drop (length ?xs + 1 - 1000) (?xs @ [m])"
    by (rule drop_capacity_step)
  finally show ?case by simp
qed

lemma saveMessage_fold:
  "ms \<noteq> [] \<Longrightarrow>
   fold (saveMessage k) ms mh k
     = Some (fold (\<lambda>m acc. push_capped acc m) ms (case mh k of None \<Rightarrow> [] | Some l \<Rightarrow> l))"
proof (induction ms arbitrary: mh)
  case Nil
  then show ?case by simp
next
  case (Cons m ms)
  show ?case
  proof (cases "ms = []")
    case True
    then show ?thesis by (simp add: saveMessage_def Let_def)
  next
    case False
    from Cons.IH[OF False, of "saveMessage k m mh"]
    show ?thesis by (simp add: saveMessage_def Let_def)
  qed
qed

text \<open>
  After 1001 messages into one empty inbox the first is gone and the other 1000 are kept,
  the last one included.
\<close>

lemma inbox_after_overflow:
  "fold (saveMessage k) (map f [0..<1001]) Map.empty k = Some (map f [1..<1001])"
proof -
  have "fold (\<lambda>m acc. push_capped acc m) (map f [0..<1001]) [] = drop 1 (map f [0..<1001])"
    using push_capped_fold[of "[]" "map f [0..<1001]"] by simp
  also have "\<dots> = map f [1..<1001]"
    by (simp only: drop_map drop_upt) simp
  finally show ?thesis
    by (simp add: saveMessage_fold del: upt_Suc)
qed

lemma saveMessage_bounded:
  assumes "\<forall>k l. mh k = Some l \<longrightarrow> length l \<le> 1000"
  shows "\<forall>k l. saveMessage u m mh k = Some l \<longrightarrow> length l \<le> 1000"
  using assms by (auto simp: saveMessage_def Let_def push_capped_length split: option.splits)

lemma handle_messageHistory:
  "messageHistory (fst (handle sid ev e s)) = messageHistory s \<or>
   (\<exists>to_name msg. ev = ev_send_private to_name msg)"
  by (cases ev) (auto simp: set_username_def send_group_def create_group_def update_status_def
      disconnect_def Let_def split: option.splits)

lemma handle_inbox_bounded: "inbox_bounded s \<Longrightarrow> inbox_bounded (fst (handle sid ev e s))"
proof (cases ev)
  case (ev_send_private to_name msg)
  assume "inbox_bounded s"
  then show ?thesis
    unfolding inbox_bounded_def ev_send_private
    using saveMessage_bounded[OF saveMessage_bounded]
    by (simp add: send_private_def Let_def)
next
qed (use handle_messageHistory[of sid ev e s] in \<open>auto simp: inbox_bounded_def\<close>)

text \<open>The private inboxes keep the bound in every reachable state.\<close>

lemma run_inbox_bounded: "inbox_bounded s \<Longrightarrow> inbox_bounded (fst (run tr s))"
proof (induction tr arbitrary: s)
  case Nil
  then show ?case by simp
next
  case (Cons x tr)
  obtain sid ev e where x: "x = (sid, ev, e)" by (cases x) auto
  from Cons.IH[OF handle_inbox_bounded[OF Cons.prems, of sid ev e]]
  show ?case by (simp add: x Let_def)
qed

lemma reachable_inbox_bounded: "inbox_bounded (fst (run tr initial))"
  by (rule run_inbox_bounded) (simp add: inbox_bounded_def initial_def)

text \<open>A group room: \<open>send_group\<close> by a member appends, and nothing is ever removed.\<close>

lemma send_group_member:
  assumes "rooms s rid = Some r" "currentUser s sid \<in> set (members r)"
  shows "fst (send_group sid rid msg e s) =
           s\<lparr>rooms := (rooms s)(rid \<mapsto>
               r\<lparr>messages := messages r @ [group_payload (currentUser s sid) rid msg e]\<rparr>)\<rparr>"
  using assms by (simp add: send_group_def Let_def)

lemma send_group_fold:
  assumes "rooms s rid = Some r" "currentUser s sid \<in> set (members r)"
  shows "rooms (fold (\<lambda>m s. fst (send_group sid rid m e s)) ms s) rid =
           Some (r\<lparr>messages := messages r @ map (\<lambda>m. group_payload (currentUser s sid) rid m e) ms\<rparr>)"
  using assms
proof (induction ms arbitrary: s r)
  case Nil
  then show ?case by simp
next
  case (Cons m ms)
  let ?s = "fst (send_group sid rid m e s)"
  let ?r = "r\<lparr>messages := messages r @ [group_payload (currentUser s sid) rid m e]\<rparr>"
  have s': "?s = s\<lparr>rooms := (rooms s)(rid \<mapsto> ?r)\<rparr>"
    using send_group_member[OF Cons.prems] .
  have "rooms ?s rid = Some ?r" "currentUser ?s sid \<in> set (members ?r)"
    using Cons.prems by (simp_all add: s')
  from Cons.IH[OF this] show ?case by (simp add: s')
qed

lemma room_state_room:
  "rooms room_state ''group_2'' =
     Some \<lparr>room_name = ''devs'', members = [Some ''B'', Some ''A''], messages = [],
           room_type = type_group, createdBy = Some ''A'', createdAt = ''2''\<rparr>"
  by (simp add: room_state_def initial_def at_time_def show_nat.simps digit_def
      set_username_def create_group_def Let_def)

lemma room_state_currentUser: "currentUser room_state ''s1'' = Some ''A''"
  by (simp add: room_state_def initial_def at_time_def show_nat.simps digit_def
      set_username_def create_group_def Let_def)

text \<open>
  C2. The claim: every conversation history, private inbox or group room, holds at most
  1000 entries, the oldest being evicted first. The inboxes do (\<open>reachable_inbox_bounded\<close>,
  \<open>inbox_after_overflow\<close>); the group path \<open>room.messages.push(payload)\<close> has no cap. After
  \<open>A\<close> sends the 1001 messages \<open>0\<close>, ..., \<open>1000\<close> into the room \<open>group_2\<close>, the room
  holds 1001 entries and the first of them is still the message \<open>0\<close>.
\<close>

theorem group_history_exceeds_capacity:
  "map_option (\<lambda>r. (length (messages r), message (messages r ! 0)))
     (rooms (fold (\<lambda>m s. fst (send_group ''s1'' ''group_2'' m (at_time 3) s))
               (map show_nat [0..<1001]) room_state) ''group_2'')
   = Some (1001, ''0'')"
proof -
  have "currentUser room_state ''s1'' \<in>
          set (members \<lparr>room_name = ''devs'', members = [Some ''B'', Some ''A''], messages = [],
                 room_type = type_group, createdBy = Some ''A'', createdAt = ''2''\<rparr>)"
    by (simp add: room_state_currentUser)
  from send_group_fold[OF room_state_room this]
  show ?thesis
    by (simp add: group_payload_def show_nat.simps[of 0] digit_def del: upt_Suc)
qed

section \<open>Private rooms\<close>

lemma private_room_of_commute: "private_room_of a b = private_room_of b a"
  by (rule ext) (simp add: private_room_of_def insert_commute)

lemma find_snoc_None: "find P xs = None \<Longrightarrow> P x \<Longrightarrow> find P (xs @ [x]) = Some x"
  by (induction xs) (auto split: if_splits)

lemma createOrFindPrivateRoom_found:
  "userA \<noteq> userB \<Longrightarrow> find (private_room_of userA userB) (db_rooms d) = Some r \<Longrightarrow>
   createOrFindPrivateRoom userA userB d = Inr (cr_id r, d)"
  by (simp add: createOrFindPrivateRoom_def)

lemma createOrFindPrivateRoom_created:
  assumes "userA \<noteq> userB" "find (private_room_of userA userB) (db_rooms d) = None"
  shows "\<exists>d1. createOrFindPrivateRoom userA userB d = Inr (fresh_room_id (db_rooms d), d1) \<and>
              find (private_room_of userA userB) (db_rooms d1)
                = Some \<lparr>cr_id = fresh_room_id (db_rooms d), cr_kind = type_private,
                        cr_members = [userA, userB]\<rparr>"
  using assms
  by (simp add: createOrFindPrivateRoom_def Let_def find_snoc_None private_room_of_def)

text \<open>
  C6. For two distinct users, \<open>createOrFindPrivateRoom\<close> returns the same room id for
  both orders of the pair, and a second call in either order returns that id again and
  leaves the database as it is (no second room); for a user with itself it fails with
  \<open>ValidationError\<close>.
\<close>

theorem createOrFindPrivateRoom_pair:
  "if userA = userB then createOrFindPrivateRoom userA userB d = Inl ValidationError
   else (\<exists>i d1 d2.
           createOrFindPrivateRoom userA userB d = Inr (i, d1) \<and>
           createOrFindPrivateRoom userB userA d = Inr (i, d2) \<and>
           createOrFindPrivateRoom userA userB d1 = Inr (i, d1) \<and>
           createOrFindPrivateRoom userB userA d1 = Inr (i, d1) \<and>
           createOrFindPrivateRoom userA userB d2 = Inr (i, d2) \<and>
           createOrFindPrivateRoom userB userA d2 = Inr (i, d2))"
proof (cases "userA = userB")
  case True
  then show ?thesis by (simp add: createOrFindPrivateRoom_def)
next
  case False
  then have ne: "userA \<noteq> userB" "userB \<noteq> userA" by auto
  show ?thesis
  proof (cases "find (private_room_of userA userB) (db_rooms d)")
    case (Some r)
    then have "find (private_room_of userB userA) (db_rooms d) = Some r"
      by (simp add: private_room_of_commute)
    with Some ne show ?thesis
      by (simp add: createOrFindPrivateRoom_found)
  next
    case None
    then have None': "find (private_room_of userB userA) (db_rooms d) = None"
      by (simp add: private_room_of_commute)
    let ?i = "fresh_room_id (db_rooms d)"
    from createOrFindPrivateRoom_created[OF ne(1) None] obtain d1 where
      d1: "createOrFindPrivateRoom userA userB d = Inr (?i, d1)"
          "find (private_room_of userA userB) (db_rooms d1)
             = Some \<lparr>cr_id = ?i, cr_kind = type_private, cr_members = [userA, userB]\<rparr>"
      by blast
    from createOrFindPrivateRoom_created[OF ne(2) None'] obtain d2 where
      d2: "createOrFindPrivateRoom userB userA d = Inr (?i, d2)"
          "find (private_room_of userB userA) (db_rooms d2)
             = Some \<lparr>cr_id = ?i, cr_kind = type_private, cr_members = [userB, userA]\<rparr>"
      by blast
    have "createOrFindPrivateRoom userA userB d1 = Inr (?i, d1)"
      using createOrFindPrivateRoom_found[OF ne(1) d1(2)] by simp
    moreover have "createOrFindPrivateRoom userB userA d1 = Inr (?i, d1)"
      using createOrFindPrivateRoom_found[OF ne(2), of d1] d1(2)
      by (simp add: private_room_of_commute[of userB userA])
    moreover have "createOrFindPrivateRoom userB userA d2 = Inr (?i, d2)"
      using createOrFindPrivateRoom_found[OF ne(2) d2(2)] by simp
    moreover have "createOrFindPrivateRoom userA userB d2 = Inr (?i, d2)"
      using createOrFindPrivateRoom_found[OF ne(1), of d2] d2(2)
      by (simp add: private_room_of_commute[of userA userB])
    ultimately show ?thesis
      using ne d1(1) d2(1) by simp
  qed
qed

theorem createOrFindPrivateRoom_pair_witness:
  "createOrFindPrivateRoom 1 2 (database example_db) =
     Inr (2, (database example_db)\<lparr>db_rooms :=
        [\<lparr>cr_id = 1, cr_kind = type_group, cr_members = [1, 2]\<rparr>,
         \<lparr>cr_id = 2, cr_kind = type_private, cr_members = [1, 2]\<rparr>]\<rparr>) \<and>
   (\<exists>i d1 d2.
      createOrFindPrivateRoom 1 2 (database example_db) = Inr (i, d1) \<and>
      createOrFindPrivateRoom 2 1 (database example_db) = Inr (i, d2) \<and>
      createOrFindPrivateRoom 1 2 d1 = Inr (i, d1) \<and>
      createOrFindPrivateRoom 2 1 d1 = Inr (i, d1) \<and>
      createOrFindPrivateRoom 1 2 d2 = Inr (i, d2) \<and>
      createOrFindPrivateRoom 2 1 d2 = Inr (i, d2))"
proof
  show "createOrFindPrivateRoom 1 2 (database example_db) =
     Inr (2, (database example_db)\<lparr>db_rooms :=
        [\<lparr>cr_id = 1, cr_kind = type_group, cr_members = [1, 2]\<rparr>,
         \<lparr>cr_id = 2, cr_kind = type_private, cr_members = [1, 2]\<rparr>]\<rparr>)"
    by (simp add: createOrFindPrivateRoom_def example_db_def private_room_of_def fresh_room_id_def)
  show "\<exists>i d1 d2.
      createOrFindPrivateRoom 1 2 (database example_db) = Inr (i, d1) \<and>
      createOrFindPrivateRoom 2 1 (database example_db) = Inr (i, d2) \<and>
      createOrFindPrivateRoom 1 2 d1 = Inr (i, d1) \<and>
      createOrFindPrivateRoom 2 1 d1 = Inr (i, d1) \<and>
      createOrFindPrivateRoom 1 2 d2 = Inr (i, d2) \<and>
      createOrFindPrivateRoom 2 1 d2 = Inr (i, d2)"
    using createOrFindPrivateRoom_pair[of 1 2 "database example_db"] by simp
qed

section \<open>Search\<close>

text \<open>
  A search leaves the state as it is, so the states reached by traces with searches are
  the states reached by traces without them.
\<close>

lemma search_messages_reads_only: "fst (search_messages engine sid q s) = s"
  by (simp add: search_messages_def Let_def)

lemma startsWith_iff: "startsWith s q \<longleftrightarrow> (\<exists>rest. s = q @ rest)"
  by (induction s q rule: startsWith.induct) auto

lemma includes_js_iff: "includes_js s q \<longleftrightarrow> (\<exists>before after. s = before @ q @ after)"
proof (induction s)
  case Nil
  then show ?case by simp
next
  case (Cons c cs)
  show ?case
  proof
    assume "includes_js (c # cs) q"
    then consider "startsWith (c # cs) q" | "includes_js cs q" by auto
    then show "\<exists>before after. c # cs = before @ q @ after"
    proof cases
      case 1
      then obtain rest where "c # cs = q @ rest" unfolding startsWith_iff by blast
      then have "c # cs = [] @ q @ rest" by simp
      then show ?thesis by blast
    next
      case 2
      then obtain before after where "cs = before @ q @ after" using Cons.IH by blast
      then have "c # cs = (c # before) @ q @ after" by simp
      then show ?thesis by blast
    qed
  next
    assume "\<exists>before after. c # cs = before @ q @ after"
    then obtain before after where eq: "c # cs = before @ q @ after" by blast
    show "includes_js (c # cs) q"
    proof (cases before)
      case Nil
      with eq have "c # cs = q @ after" by simp
      then have "startsWith (c # cs) q" unfolding startsWith_iff by blast
      then show ?thesis by simp
    next
      case (Cons b bs)
      with eq have "cs = bs @ q @ after" by simp
      then have "includes_js cs q" using Cons.IH by blast
      then show ?thesis by simp
    qed
  qed
qed

lemma of_char_nat_eqD: "(of_char c :: nat) = of_char d \<Longrightarrow> c = d"
  by (simp add: of_char_eq_iff)

lemma is_upper_iff: "is_upper c \<longleftrightarrow> c \<in> set ''ABCDEFGHIJKLMNOPQRSTUVWXYZ''"
proof
  assume "c \<in> set ''ABCDEFGHIJKLMNOPQRSTUVWXYZ''"
  then show "is_upper c"
    by (auto simp: is_upper_def)
next
  assume "is_upper c"
  then have "(of_char c :: nat) \<in> of_char ` set ''ABCDEFGHIJKLMNOPQRSTUVWXYZ''"
    unfolding is_upper_def by simp arith
  then obtain d where "d \<in> set ''ABCDEFGHIJKLMNOPQRSTUVWXYZ''" "(of_char c :: nat) = of_char d"
    by blast
  then show "c \<in> set ''ABCDEFGHIJKLMNOPQRSTUVWXYZ''"
    using of_char_nat_eqD by blast
qed

lemma lower_char_code:
  "(of_char (lower_char c) :: nat) = (if is_upper c then of_char c + 32 else of_char c)"
proof (cases "is_upper c")
  case True
  then have "c \<in> set ''ABCDEFGHIJKLMNOPQRSTUVWXYZ''"
    by (simp only: is_upper_iff)
  then show ?thesis
    using True by (auto simp: lower_char_def)
next
  case False
  then have "c \<notin> set ''ABCDEFGHIJKLMNOPQRSTUVWXYZ''"
    by (simp only: is_upper_iff not_False_eq_True)
  then have "lower_char c = c"
    by (simp add: lower_char_def)
  with False show ?thesis by simp
qed

lemma same_letter_iff: "same_letter a b \<longleftrightarrow> lower_char a = lower_char b"
proof -
  have "lower_char a = lower_char b
          \<longleftrightarrow> (of_char (lower_char a) :: nat) = of_char (lower_char b)"
    by (simp add: of_char_eq_iff)
  also have "\<dots> \<longleftrightarrow> same_letter a b"
  proof -
    have eq: "a = b \<longleftrightarrow> (of_char a :: nat) = of_char b"
      by (simp add: of_char_eq_iff)
    show ?thesis
      unfolding lower_char_code same_letter_def eq
      by (auto simp: is_upper_def)
  qed
  finally show ?thesis by simp
qed


lemma same_letter_map: "list_all2 same_letter xs ys \<longleftrightarrow> map lower_char xs = map lower_char ys"
proof -
  have "map lower_char xs = map lower_char ys
          \<longleftrightarrow> list_all2 (=) (map lower_char xs) (map lower_char ys)"
    by (simp add: list.rel_eq)
  also have "\<dots> \<longleftrightarrow> list_all2 (\<lambda>a b. lower_char a = lower_char b) xs ys"
    by (simp add: list_all2_map1 list_all2_map2)
  also have "\<dots> \<longleftrightarrow> list_all2 same_letter xs ys"
  proof -
    have "same_letter = (\<lambda>a b. lower_char a = lower_char b)"
      by (intro ext) (rule same_letter_iff)
    then show ?thesis by simp
  qed
  finally show ?thesis by simp
qed

lemma includes_map_lower_iff:
  "includes_js (map lower_char content) (map lower_char q) \<longleftrightarrow> contains_ignoring_case content q"
proof
  assume "includes_js (map lower_char content) (map lower_char q)"
  then obtain before after where
    eq: "map lower_char content = before @ map lower_char q @ after"
    unfolding includes_js_iff by blast
  let ?b = "take (length before) content"
  let ?mid = "take (length q) (drop (length before) content)"
  let ?a = "drop (length q) (drop (length before) content)"
  have "map lower_char ?mid = take (length q) (drop (length before) (map lower_char content))"
    by (simp only: take_map drop_map)
  also have "\<dots> = map lower_char q"
    by (simp add: eq)
  finally have "list_all2 same_letter ?mid q"
    unfolding same_letter_map .
  moreover have "content = ?b @ ?mid @ ?a"
    by (simp only: append_take_drop_id)
  ultimately show "contains_ignoring_case content q"
    unfolding contains_ignoring_case_def by blast
next
  assume "contains_ignoring_case content q"
  then obtain before mid after where
    "content = before @ mid @ after" "map lower_char mid = map lower_char q"
    unfolding contains_ignoring_case_def same_letter_map by blast
  then have "map lower_char content = map lower_char before @ map lower_char q @ map lower_char after"
    by simp
  then show "includes_js (map lower_char content) (map lower_char q)"
    unfolding includes_js_iff by blast
qed

lemma includes_lower_ascii:
  "is_ascii content \<Longrightarrow> is_ascii q \<Longrightarrow>
   includes_js (toLowerCase engine content) (toLowerCase engine q)
     \<longleftrightarrow> contains_ignoring_case content q"
  by (simp add: toLowerCase_def includes_map_lower_iff)

text \<open>
  C9, as claimed: for every query string, \<open>search_messages\<close> returns every stored
  message whose content contains the query as a case-insensitive substring, and no other.
  The handler lowers the whole content and the whole query and then looks for the one in
  the other, and the conversion of a capital sigma depends on the letter before it: the
  stored message \<open>A\<close> followed by the capital sigma contains the query, the capital
  sigma, as it stands, and the search returns nothing.
\<close>

theorem search_messages_omits_sigma:
  "snd (search_messages sigma_engine ''s1'' [CHR 0xCE, CHR 0xA3] sigma_state)
     = [(''s1'', search_results [])] \<and>
   map message (inbox sigma_state (currentUser sigma_state ''s1''))
     = [[CHR ''A'', CHR 0xCE, CHR 0xA3]] \<and>
   contains_ignoring_case [CHR ''A'', CHR 0xCE, CHR 0xA3] [CHR 0xCE, CHR 0xA3]"
proof -
  have cu: "currentUser sigma_state ''s1'' = Some ''A''"
    by code_simp
  have mh: "messageHistory sigma_state (Some ''A'')
              = Some [private_payload (Some ''A'') ''B'' [CHR ''A'', CHR 0xCE, CHR 0xA3] (at_time 2)]"
    by code_simp
  have 1: "snd (search_messages sigma_engine ''s1'' [CHR 0xCE, CHR 0xA3] sigma_state)
             = [(''s1'', search_results [])]"
    by (simp add: search_messages_def cu mh toLowerCase_def is_ascii_def sigma_engine_def
        private_payload_def)
  have 2: "map message (inbox sigma_state (currentUser sigma_state ''s1''))
             = [[CHR ''A'', CHR 0xCE, CHR 0xA3]]"
    by (simp add: inbox_def cu mh private_payload_def)
  have "[CHR ''A'', CHR 0xCE, CHR 0xA3] = [CHR ''A''] @ [CHR 0xCE, CHR 0xA3] @ [] \<and>
        list_all2 same_letter [CHR 0xCE, CHR 0xA3] [CHR 0xCE, CHR 0xA3]"
    by (simp add: same_letter_def)
  then have 3: "contains_ignoring_case [CHR ''A'', CHR 0xCE, CHR 0xA3] [CHR 0xCE, CHR 0xA3]"
    unfolding contains_ignoring_case_def by blast
  from 1 2 3 show ?thesis by simp
qed

text \<open>
  C9, amended: \<open>search_messages\<close> answers with the stored messages of the sender's
  history whose lowered content includes the lowered query, in stored order. For a query
  and a content of ASCII characters this is exactly that the content contains the query as
  a case-insensitive substring; so an ASCII query over a history of ASCII messages gets
  exactly the matches: no other message, and every match.
\<close>

theorem search_messages_exact:
  "search_messages engine sid q s =
     (s, [(sid, search_results
                  (filter (\<lambda>m. includes_js (toLowerCase engine (message m)) (toLowerCase engine q))
                          (inbox s (currentUser s sid))))]) \<and>
   (is_ascii q \<and> is_ascii content \<longrightarrow>
      includes_js (toLowerCase engine content) (toLowerCase engine q)
        = contains_ignoring_case content q) \<and>
   (is_ascii q \<and> list_all (\<lambda>m. is_ascii (message m)) (inbox s (currentUser s sid)) \<longrightarrow>
      search_messages engine sid q s =
        (s, [(sid, search_results
                     (filter (\<lambda>m. contains_ignoring_case (message m) q)
                             (inbox s (currentUser s sid))))]))"
proof (intro conjI impI)
  show gen: "search_messages engine sid q s =
     (s, [(sid, search_results
                  (filter (\<lambda>m. includes_js (toLowerCase engine (message m)) (toLowerCase engine q))
                          (inbox s (currentUser s sid))))])"
    by (simp add: search_messages_def inbox_def)
  show "includes_js (toLowerCase engine content) (toLowerCase engine q)
          = contains_ignoring_case content q"
    if "is_ascii q \<and> is_ascii content"
    using that by (simp add: includes_lower_ascii)
  show "search_messages engine sid q s =
        (s, [(sid, search_results
                     (filter (\<lambda>m. contains_ignoring_case (message m) q)
                             (inbox s (currentUser s sid))))])"
    if a: "is_ascii q \<and> list_all (\<lambda>m. is_ascii (message m)) (inbox s (currentUser s sid))"
  proof -
    have "filter (\<lambda>m. includes_js (toLowerCase engine (message m)) (toLowerCase engine q))
            (inbox s (currentUser s sid))
          = filter (\<lambda>m. contains_ignoring_case (message m) q) (inbox s (currentUser s sid))"
      using a by (intro filter_cong refl) (simp add: list_all_iff includes_lower_ascii)
    with gen show ?thesis by simp
  qed
qed

theorem search_messages_exact_witness:
  "is_ascii ''hI'' \<and>
   list_all (\<lambda>m. is_ascii (message m)) (inbox chat_state (currentUser chat_state ''s1'')) \<and>
   map message (inbox chat_state (currentUser chat_state ''s1''))
     = [''Hi there'', ''bye'', ''oh HI''] \<and>
   search_messages sigma_engine ''s1'' ''hI'' chat_state =
     (chat_state, [(''s1'', search_results
        (filter (\<lambda>m. contains_ignoring_case (message m) ''hI'')
                (inbox chat_state (currentUser chat_state ''s1''))))]) \<and>
   map message (filter (\<lambda>m. contains_ignoring_case (message m) ''hI'')
                  (inbox chat_state (currentUser chat_state ''s1'')))
     = [''Hi there'', ''oh HI'']"
proof -
  have cu: "currentUser chat_state ''s1'' = Some ''A''"
    by code_simp
  have mh: "messageHistory chat_state (Some ''A'')
              = Some [private_payload (Some ''A'') ''B'' ''Hi there'' (at_time 2),
                      private_payload (Some ''A'') ''B'' ''bye'' (at_time 3),
                      private_payload (Some ''A'') ''B'' ''oh HI'' (at_time 4)]"
    by code_simp
  have 1: "is_ascii ''hI''"
    by (simp add: is_ascii_def)
  have 2: "list_all (\<lambda>m. is_ascii (message m)) (inbox chat_state (currentUser chat_state ''s1''))"
    by (simp add: inbox_def cu mh private_payload_def is_ascii_def)
  have 3: "map message (inbox chat_state (currentUser chat_state ''s1''))
             = [''Hi there'', ''bye'', ''oh HI'']"
    by (simp add: inbox_def cu mh private_payload_def)
  note inst = search_messages_exact[of sigma_engine "''s1''" "''hI''" chat_state]
  have 4: "search_messages sigma_engine ''s1'' ''hI'' chat_state =
     (chat_state, [(''s1'', search_results
        (filter (\<lambda>m. contains_ignoring_case (message m) ''hI'')
                (inbox chat_state (currentUser chat_state ''s1''))))])"
    using 1 2 conjunct2[OF conjunct2[OF inst]] by simp
  have 5: "snd (search_messages sigma_engine ''s1'' ''hI'' chat_state)
             = [(''s1'', search_results
                   [private_payload (Some ''A'') ''B'' ''Hi there'' (at_time 2),
                    private_payload (Some ''A'') ''B'' ''oh HI'' (at_time 4)])]"
    by (simp add: search_messages_def cu mh private_payload_def toLowerCase_def is_ascii_def
        lower_char_def)
  have 6: "map message (filter (\<lambda>m. contains_ignoring_case (message m) ''hI'')
                  (inbox chat_state (currentUser chat_state ''s1'')))
     = [''Hi there'', ''oh HI'']"
    using 5 unfolding 4 by (simp add: private_payload_def)
  from 1 2 3 4 6 show ?thesis by simp
qed

section \<open>Group messages from a sender outside the room\<close>

text \<open>
  C1, as claimed: a \<open>send_group\<close> of a sender who is not a member persists nothing,
  delivers nothing and surfaces a Forbidden error to the sender. In the in-memory server
  the guard is \<open>if (!room || !room.members.includes(currentUser)) return;\<close>: when \<open>C\<close>
  writes into the room of \<open>A\<close> and \<open>B\<close>, the state is unchanged and nothing at all is
  emitted, so no error reaches \<open>C\<close>.
\<close>

theorem send_group_outsider_silent:
  "send_group ''s3'' ''group_2'' ''hello'' (at_time 4) outsider_state = (outsider_state, [])"
  by (simp add: outsider_state_def run_defs)

text \<open>
  C1, amended: for a sender outside the room (or an unknown room) nothing is persisted
  and nothing is delivered. The in-memory server drops the event silently; the
  database-backed server emits one \<open>error\<close> event (the text \<open>not_a_member\<close>, no code) to
  the sender's socket and leaves the database as it is.
\<close>

theorem send_group_non_member:
  "(not_member s sid rid \<longrightarrow> send_group sid rid msg e s = (s, [])) \<and>
   (r_isMember R room (row_id user) (database st) = Inr False \<longrightarrow>
      db_send_group R sid' user room msg fileData e st
        = (st, [(to_socket sid', db_error not_a_member)]))"
  by (simp add: not_member_def send_group_def db_send_group_def split: option.splits)

theorem send_group_non_member_witness:
  "not_member outsider_state ''s3'' ''group_2'' \<and>
   send_group ''s3'' ''group_2'' ''hello'' (at_time 4) outsider_state = (outsider_state, []) \<and>
   r_isMember spec_repositories 1 3 (database example_db) = Inr False \<and>
   db_send_group spec_repositories ''s3'' \<lparr>row_id = 3, row_username = ''C''\<rparr> 1 ''hello'' None
       (at_time 4) example_db
     = (example_db, [(to_socket ''s3'', db_error not_a_member)])"
proof -
  have 1: "not_member outsider_state ''s3'' ''group_2''"
    by (simp add: not_member_def outsider_state_def run_defs)
  have 2: "r_isMember spec_repositories 1 (row_id \<lparr>row_id = 3, row_username = ''C''\<rparr>)
             (database example_db) = Inr False"
    by (simp add: spec_repositories_def isMember_def example_db_def)
  from 1 2 send_group_non_member[of outsider_state "''s3''" "''group_2''" "''hello''" "at_time 4"
      spec_repositories 1 "\<lparr>row_id = 3, row_username = ''C''\<rparr>" example_db "''s3''" None]
  show ?thesis by simp
qed

section \<open>Saving a private message\<close>

lemma push_capped_below: "length l < 1000 \<Longrightarrow> push_capped l m = l @ [m]"
  by (simp add: push_capped_def Let_def)

lemma push_capped_full: "1000 \<le> length l \<Longrightarrow> push_capped l m = tl l @ [m]"
  by (cases l) (simp_all add: push_capped_def Let_def)

lemma send_private_frame:
  "users (fst (send_private sid to_name msg e s)) = users s \<and>
   rooms (fst (send_private sid to_name msg e s)) = rooms s \<and>
   currentUser (fst (send_private sid to_name msg e s)) = currentUser s \<and>
   (\<forall>k. k \<noteq> Some to_name \<and> k \<noteq> currentUser s sid \<longrightarrow>
      messageHistory (fst (send_private sid to_name msg e s)) k = messageHistory s k)"
  by (simp add: send_private_def Let_def saveMessage_def)

lemma send_private_inboxes:
  "(currentUser s sid \<noteq> Some to_name \<longrightarrow>
      inbox (fst (send_private sid to_name msg e s)) (Some to_name)
        = push_capped (inbox s (Some to_name)) (private_payload (currentUser s sid) to_name msg e) \<and>
      inbox (fst (send_private sid to_name msg e s)) (currentUser s sid)
        = push_capped (inbox s (currentUser s sid))
            (private_payload (currentUser s sid) to_name msg e)) \<and>
   (currentUser s sid = Some to_name \<longrightarrow>
      inbox (fst (send_private sid to_name msg e s)) (Some to_name)
        = push_capped
            (push_capped (inbox s (Some to_name)) (private_payload (currentUser s sid) to_name msg e))
            (private_payload (currentUser s sid) to_name msg e))"
  by (auto simp: send_private_def Let_def saveMessage_def inbox_def)

section \<open>Private messages to an unknown name\<close>

text \<open>
  C7, as claimed: a \<open>send_private\<close> to a name that resolves to no known user fails with
  UserNotFound and persists nothing. The in-memory server never looks the target up
  before saving: \<open>A\<close> writes to the unknown name \<open>ghost\<close>, the message is stored under
  \<open>ghost\<close> and the only event is the acknowledgement \<open>message_sent\<close>.
\<close>

theorem send_private_unknown_persists:
  "map_option (map message) (messageHistory (fst (send_private ''s1'' ''ghost'' ''hi'' (at_time 3) room_state)) (Some ''ghost'')) = Some [''hi''] \<and>
   snd (send_private ''s1'' ''ghost'' ''hi'' (at_time 3) room_state)
     = [(''s1'', message_sent \<lparr>p_id = 3, p_from = Some ''A'', p_to = Some ''ghost'', p_roomId = None,
                             message = ''hi'', timestamp = ''3'', p_type = type_private\<rparr>)]"
  by (simp add: room_state_def run_defs)

text \<open>
  C7, amended: when the target is no known user, nothing is delivered. The in-memory
  server raises no error: it pushes the payload with \<open>saveMessage\<close> onto the history of
  the sender and onto the history of the target name (onto the one history twice when the
  two are the same key), changes nothing else, and acknowledges the sender with
  \<open>message_sent\<close>. A push appends the payload to a history of fewer than 1000 entries
  and replaces the oldest entry of a longer one. The database-backed server emits one
  \<open>error\<close> event (the text \<open>user_not_found\<close>) to the sender and leaves the database as
  it is.
\<close>

theorem send_private_unknown_target:
  "(map_of (users s) to_name = None \<longrightarrow>
      snd (send_private sid to_name msg e s)
        = [(sid, message_sent (private_payload (currentUser s sid) to_name msg e))] \<and>
      (currentUser s sid \<noteq> Some to_name \<longrightarrow>
         inbox (fst (send_private sid to_name msg e s)) (Some to_name)
           = push_capped (inbox s (Some to_name))
               (private_payload (currentUser s sid) to_name msg e) \<and>
         inbox (fst (send_private sid to_name msg e s)) (currentUser s sid)
           = push_capped (inbox s (currentUser s sid))
               (private_payload (currentUser s sid) to_name msg e)) \<and>
      (currentUser s sid = Some to_name \<longrightarrow>
         inbox (fst (send_private sid to_name msg e s)) (Some to_name)
           = push_capped
               (push_capped (inbox s (Some to_name))
                  (private_payload (currentUser s sid) to_name msg e))
               (private_payload (currentUser s sid) to_name msg e)) \<and>
      (\<forall>k. k \<noteq> Some to_name \<and> k \<noteq> currentUser s sid \<longrightarrow>
         messageHistory (fst (send_private sid to_name msg e s)) k = messageHistory s k) \<and>
      users (fst (send_private sid to_name msg e s)) = users s \<and>
      rooms (fst (send_private sid to_name msg e s)) = rooms s \<and>
      currentUser (fst (send_private sid to_name msg e s)) = currentUser s) \<and>
   (\<forall>l m. (length l < 1000 \<longrightarrow> push_capped l m = l @ [m]) \<and>
          (1000 \<le> length l \<longrightarrow> push_capped l m = tl l @ [m])) \<and>
   (r_findByUsername R to_name (database st) = Inr None \<longrightarrow>
      db_send_private R sid' user to_name msg fileData e st
        = (st, [(to_socket sid', db_error user_not_found)]))"
proof -
  have "map_of (users s) to_name = None \<Longrightarrow>
      snd (send_private sid to_name msg e s)
        = [(sid, message_sent (private_payload (currentUser s sid) to_name msg e))]"
    by (simp add: send_private_def Let_def)
  moreover have "r_findByUsername R to_name (database st) = Inr None \<Longrightarrow>
      db_send_private R sid' user to_name msg fileData e st
        = (st, [(to_socket sid', db_error user_not_found)])"
    by (simp add: db_send_private_def)
  moreover have "\<forall>l m. (length l < 1000 \<longrightarrow> push_capped l m = l @ [m]) \<and>
          (1000 \<le> length l \<longrightarrow> push_capped l m = tl l @ [m])"
    by (simp add: push_capped_below push_capped_full)
  ultimately show ?thesis
    using send_private_frame[of sid to_name msg e s] send_private_inboxes[of s sid to_name msg e]
    by blast
qed

theorem send_private_unknown_target_witness:
  "map_of (users noted_state) ''ghost'' = None \<and>
   map message (inbox noted_state (Some ''A'')) = [''first''] \<and>
   snd (send_private ''s1'' ''ghost'' ''hi'' (at_time 3) noted_state)
     = [(''s1'', message_sent (private_payload (Some ''A'') ''ghost'' ''hi'' (at_time 3)))] \<and>
   inbox (fst (send_private ''s1'' ''ghost'' ''hi'' (at_time 3) noted_state)) (Some ''ghost'')
     = [private_payload (Some ''A'') ''ghost'' ''hi'' (at_time 3)] \<and>
   inbox (fst (send_private ''s1'' ''ghost'' ''hi'' (at_time 3) noted_state)) (Some ''A'')
     = [private_payload (Some ''A'') ''B'' ''first'' (at_time 2),
        private_payload (Some ''A'') ''ghost'' ''hi'' (at_time 3)] \<and>
   r_findByUsername spec_repositories ''ghost'' (database example_db) = Inr None \<and>
   db_send_private spec_repositories ''s1'' \<lparr>row_id = 1, row_username = ''A''\<rparr> ''ghost'' ''hi'' None
       (at_time 3) example_db
     = (example_db, [(to_socket ''s1'', db_error user_not_found)])"
proof -
  let ?p = "private_payload (Some ''A'') ''ghost'' ''hi'' (at_time 3)"
  have 1: "map_of (users noted_state) ''ghost'' = None"
    by code_simp
  have 2: "r_findByUsername spec_repositories ''ghost'' (database example_db) = Inr None"
    by (simp add: spec_repositories_def findByUsername_def example_db_def)
  have 3: "currentUser noted_state ''s1'' = Some ''A''"
    by code_simp
  have 4: "messageHistory noted_state (Some ''A'')
             = Some [private_payload (Some ''A'') ''B'' ''first'' (at_time 2)]"
    by code_simp
  have 5: "messageHistory noted_state (Some ''ghost'') = None"
    by code_simp
  note inst = send_private_unknown_target[of noted_state "''ghost''" "''s1''" "''hi''" "at_time 3"
      spec_repositories example_db "''s1''" "\<lparr>row_id = 1, row_username = ''A''\<rparr>" None]
  note mem = mp[OF conjunct1[OF inst] 1]
  have a: "snd (send_private ''s1'' ''ghost'' ''hi'' (at_time 3) noted_state) = [(''s1'', message_sent ?p)]"
    using conjunct1[OF mem] by (simp add: 3)
  have ne: "currentUser noted_state ''s1'' \<noteq> Some ''ghost''"
    by (simp add: 3)
  note both = mp[OF conjunct1[OF conjunct2[OF mem]] ne]
  have b: "inbox (fst (send_private ''s1'' ''ghost'' ''hi'' (at_time 3) noted_state)) (Some ''ghost'') = [?p]"
    using conjunct1[OF both] by (simp add: 3 5 inbox_def push_capped_def)
  have c: "inbox (fst (send_private ''s1'' ''ghost'' ''hi'' (at_time 3) noted_state)) (Some ''A'')
     = [private_payload (Some ''A'') ''B'' ''first'' (at_time 2), ?p]"
    using conjunct2[OF both] by (simp add: 3 4 inbox_def push_capped_def)
  have d: "db_send_private spec_repositories ''s1'' \<lparr>row_id = 1, row_username = ''A''\<rparr> ''ghost'' ''hi'' None
       (at_time 3) example_db
     = (example_db, [(to_socket ''s1'', db_error user_not_found)])"
    by (rule mp[OF conjunct2[OF conjunct2[OF inst]] 2])
  have e: "map message (inbox noted_state (Some ''A'')) = [''first'']"
    by (simp add: inbox_def 4 private_payload_def)
  from 1 2 a b c d e show ?thesis by simp
qed

section \<open>Private messages to oneself\<close>

lemma push_capped_twice_drop:
  "length l \<le> 1000 \<Longrightarrow>
   push_capped (push_capped l m) m = drop (length l + 2 - 1000) (l @ [m, m])"
  using push_capped_fold[of l "[m, m]"] by simp

text \<open>
  C10, amended: a registered user \<open>u\<close> who writes to its own name gets the payload
  pushed twice with \<open>saveMessage\<close> onto its own history, and nothing else changes: a
  history of at most 998 entries is the old one followed by the payload twice, and a
  history of at most 1000 entries loses only the oldest entries beyond 1000. The sending
  socket is acknowledged with \<open>message_sent\<close>. The payload is delivered to the socket
  stored for \<open>u\<close> when the entry of \<open>u\<close> is marked online, and is not delivered when
  it is marked offline.
\<close>

theorem send_private_to_self:
  "currentUser s sid = Some u \<and> map_of (users s) u = Some info \<longrightarrow>
     snd (send_private sid u msg e s)
       = (if online info then [(socketId info, receive_private (private_payload (Some u) u msg e))]
          else [])
         @ [(sid, message_sent (private_payload (Some u) u msg e))] \<and>
     inbox (fst (send_private sid u msg e s)) (Some u)
       = push_capped (push_capped (inbox s (Some u)) (private_payload (Some u) u msg e))
           (private_payload (Some u) u msg e) \<and>
     (length (inbox s (Some u)) + 2 \<le> 1000 \<longrightarrow>
        inbox (fst (send_private sid u msg e s)) (Some u)
          = inbox s (Some u) @ [private_payload (Some u) u msg e, private_payload (Some u) u msg e]) \<and>
     (length (inbox s (Some u)) \<le> 1000 \<longrightarrow>
        inbox (fst (send_private sid u msg e s)) (Some u)
          = drop (length (inbox s (Some u)) + 2 - 1000)
              (inbox s (Some u)
               @ [private_payload (Some u) u msg e, private_payload (Some u) u msg e])) \<and>
     (\<forall>k. k \<noteq> Some u \<longrightarrow> messageHistory (fst (send_private sid u msg e s)) k = messageHistory s k) \<and>
     users (fst (send_private sid u msg e s)) = users s \<and>
     rooms (fst (send_private sid u msg e s)) = rooms s \<and>
     currentUser (fst (send_private sid u msg e s)) = currentUser s"
proof (intro impI, elim conjE)
  assume cu: "currentUser s sid = Some u" and info: "map_of (users s) u = Some info"
  let ?p = "private_payload (Some u) u msg e"
  let ?s' = "fst (send_private sid u msg e s)"
  have out: "snd (send_private sid u msg e s)
       = (if online info then [(socketId info, receive_private ?p)] else [])
         @ [(sid, message_sent ?p)]"
    using cu info by (simp add: send_private_def Let_def)
  have twice: "inbox ?s' (Some u) = push_capped (push_capped (inbox s (Some u)) ?p) ?p"
    using cu send_private_inboxes[of s sid u msg e] by simp
  have below: "inbox ?s' (Some u) = inbox s (Some u) @ [?p, ?p]"
    if "length (inbox s (Some u)) + 2 \<le> 1000"
    using that by (simp add: twice push_capped_below)
  have general: "inbox ?s' (Some u)
                   = drop (length (inbox s (Some u)) + 2 - 1000) (inbox s (Some u) @ [?p, ?p])"
    if "length (inbox s (Some u)) \<le> 1000"
    using that by (simp only: twice push_capped_twice_drop)
  have frame: "(\<forall>k. k \<noteq> Some u \<longrightarrow> messageHistory ?s' k = messageHistory s k) \<and>
     users ?s' = users s \<and> rooms ?s' = rooms s \<and> currentUser ?s' = currentUser s"
    using cu send_private_frame[of sid u msg e s] by simp
  from out twice below general frame
  show "snd (send_private sid u msg e s)
       = (if online info then [(socketId info, receive_private ?p)] else [])
         @ [(sid, message_sent ?p)] \<and>
     inbox ?s' (Some u) = push_capped (push_capped (inbox s (Some u)) ?p) ?p \<and>
     (length (inbox s (Some u)) + 2 \<le> 1000 \<longrightarrow>
        inbox ?s' (Some u) = inbox s (Some u) @ [?p, ?p]) \<and>
     (length (inbox s (Some u)) \<le> 1000 \<longrightarrow>
        inbox ?s' (Some u)
          = drop (length (inbox s (Some u)) + 2 - 1000) (inbox s (Some u) @ [?p, ?p])) \<and>
     (\<forall>k. k \<noteq> Some u \<longrightarrow> messageHistory ?s' k = messageHistory s k) \<and>
     users ?s' = users s \<and> rooms ?s' = rooms s \<and> currentUser ?s' = currentUser s"
    by blast
qed

text \<open>
  C10, as claimed, says that the message is always delivered to the connection of \<open>u\<close>.
  In \<open>stale_state\<close> user \<open>A\<close> is connected on \<open>s2\<close> but marked offline by the
  disconnect of its first socket: the message to itself is acknowledged, and no
  \<open>receive_private\<close> is emitted.
\<close>

theorem send_private_to_self_offline:
  "snd (send_private ''s2'' ''A'' ''note'' (at_time 4) stale_state)
     = [(''s2'', message_sent \<lparr>p_id = 4, p_from = Some ''A'', p_to = Some ''A'', p_roomId = None,
                             message = ''note'', timestamp = ''4'', p_type = type_private\<rparr>)]"
  by (simp add: stale_state_def run_defs)

theorem send_private_to_self_witness:
  "currentUser noted_state ''s1'' = Some ''A'' \<and>
   map_of (users noted_state) ''A''
     = Some \<lparr>socketId = ''s1'', online = True, avatar = None, lastSeen = ''1'', status = None\<rparr> \<and>
   inbox noted_state (Some ''A'') = [private_payload (Some ''A'') ''B'' ''first'' (at_time 2)] \<and>
   snd (send_private ''s1'' ''A'' ''note'' (at_time 4) noted_state)
     = [(''s1'', receive_private (private_payload (Some ''A'') ''A'' ''note'' (at_time 4))),
        (''s1'', message_sent (private_payload (Some ''A'') ''A'' ''note'' (at_time 4)))] \<and>
   inbox (fst (send_private ''s1'' ''A'' ''note'' (at_time 4) noted_state)) (Some ''A'')
     = [private_payload (Some ''A'') ''B'' ''first'' (at_time 2),
        private_payload (Some ''A'') ''A'' ''note'' (at_time 4),
        private_payload (Some ''A'') ''A'' ''note'' (at_time 4)]"
proof -
  let ?info = "\<lparr>socketId = ''s1'', online = True, avatar = None, lastSeen = ''1'', status = None\<rparr>"
  have 1: "currentUser noted_state ''s1'' = Some ''A''"
    by code_simp
  have 2: "map_of (users noted_state) ''A'' = Some ?info"
    by code_simp
  have 3: "inbox noted_state (Some ''A'') = [private_payload (Some ''A'') ''B'' ''first'' (at_time 2)]"
    by code_simp
  have h: "currentUser noted_state ''s1'' = Some ''A'' \<and> map_of (users noted_state) ''A'' = Some ?info"
    using 1 2 by simp
  note inst = mp[OF send_private_to_self[of noted_state "''s1''" "''A''" ?info "''note''" "at_time 4"] h]
  have a: "snd (send_private ''s1'' ''A'' ''note'' (at_time 4) noted_state)
     = [(''s1'', receive_private (private_payload (Some ''A'') ''A'' ''note'' (at_time 4))),
        (''s1'', message_sent (private_payload (Some ''A'') ''A'' ''note'' (at_time 4)))]"
    using conjunct1[OF inst] by simp
  have small: "length (inbox noted_state (Some ''A'')) + 2 \<le> 1000"
    by (simp add: 3)
  have b: "inbox (fst (send_private ''s1'' ''A'' ''note'' (at_time 4) noted_state)) (Some ''A'')
     = [private_payload (Some ''A'') ''B'' ''first'' (at_time 2),
        private_payload (Some ''A'') ''A'' ''note'' (at_time 4),
        private_payload (Some ''A'') ''A'' ''note'' (at_time 4)]"
    using mp[OF conjunct1[OF conjunct2[OF conjunct2[OF inst]]] small] by (simp add: 3)
  from 1 2 3 a b show ?thesis by simp
qed

section \<open>Disconnect\<close>

text \<open>
  C3, as claimed: the disconnect of a socket is a no-op when the user has registered a
  newer connection since. The handler never compares socket ids: after \<open>A\<close> has
  registered on \<open>s1\<close> and then on \<open>s2\<close>, the disconnect of \<open>s1\<close> marks \<open>A\<close> offline
  while the stored socket is \<open>s2\<close>.
\<close>

theorem late_disconnect_marks_offline:
  "map_option (\<lambda>u. (socketId u, online u))
     (map_of (users (fst (disconnect ''s1'' (at_time 3) two_tabs))) ''A'') = Some (''s2'', False)"
  by (simp add: two_tabs_def run_defs)

lemma known_user_Some:
  "currentUser s sid = Some n \<Longrightarrow> n \<noteq> [] \<Longrightarrow> map_of (users s) n = Some u \<Longrightarrow>
   known_user s sid = Some (n, u)"
  by (simp add: known_user_def)

lemma update_present_keys: "map_of al k = Some v \<Longrightarrow> map fst (AList.update k v' al) = map fst al"
proof -
  assume "map_of al k = Some v"
  then have "k \<in> set (map fst al)"
    by (metis map_of_eq_None_iff option.distinct(1) set_map)
  then show ?thesis by (simp add: update_keys)
qed

text \<open>
  C3, amended: the disconnect of a socket whose \<open>currentUser\<close> is a known, non-empty
  name marks that user offline and sets its last-seen time, whatever socket id is stored
  for the user; the entry, its stored socket id, the order of the entries and every other
  user are kept, and nothing is removed. A socket without such a user changes nothing. The
  database-backed server, once \<open>updateOnlineStatus\<close> has succeeded, deletes the user's
  entry of \<open>connectedUsers\<close> without looking at the socket stored in it; when
  \<open>updateOnlineStatus\<close> rejects, it changes nothing and emits nothing.
\<close>

theorem disconnect_marks_offline:
  "(currentUser s sid = Some n \<and> n \<noteq> [] \<and> map_of (users s) n = Some u \<longrightarrow>
      map_of (users (fst (disconnect sid e s))) n
        = Some (u\<lparr>online := False, lastSeen := now_iso e\<rparr>) \<and>
      map fst (users (fst (disconnect sid e s))) = map fst (users s) \<and>
      (\<forall>m. m \<noteq> n \<longrightarrow> map_of (users (fst (disconnect sid e s))) m = map_of (users s) m)) \<and>
   (known_user s sid = None \<longrightarrow> disconnect sid e s = (s, [])) \<and>
   ((\<exists>d1. r_updateOnlineStatus R (row_id user) False (database st) = Inr d1) \<longrightarrow>
      connectedUsers (fst (db_disconnect R sid' user st)) = (connectedUsers st)(row_id user := None)) \<and>
   ((\<exists>f. r_updateOnlineStatus R (row_id user) False (database st) = Inl f) \<longrightarrow>
      db_disconnect R sid' user st = (st, []))"
proof (intro conjI impI)
  assume a: "currentUser s sid = Some n \<and> n \<noteq> [] \<and> map_of (users s) n = Some u"
  then have k: "known_user s sid = Some (n, u)" by (simp add: known_user_Some)
  then have us: "users (fst (disconnect sid e s))
                   = AList.update n (u\<lparr>online := False, lastSeen := now_iso e\<rparr>) (users s)"
    by (simp add: disconnect_def Let_def)
  show "map_of (users (fst (disconnect sid e s))) n = Some (u\<lparr>online := False, lastSeen := now_iso e\<rparr>)"
    by (simp add: us update_conv')
  show "map fst (users (fst (disconnect sid e s))) = map fst (users s)"
    using a by (simp add: us update_present_keys)
  show "\<forall>m. m \<noteq> n \<longrightarrow> map_of (users (fst (disconnect sid e s))) m = map_of (users s) m"
    by (simp add: us update_conv')
next
  assume "known_user s sid = None"
  then show "disconnect sid e s = (s, [])" by (simp add: disconnect_def)
next
  assume "\<exists>d1. r_updateOnlineStatus R (row_id user) False (database st) = Inr d1"
  then show "connectedUsers (fst (db_disconnect R sid' user st)) = (connectedUsers st)(row_id user := None)"
    by (auto simp: db_disconnect_def)
next
  assume "\<exists>f. r_updateOnlineStatus R (row_id user) False (database st) = Inl f"
  then show "db_disconnect R sid' user st = (st, [])"
    by (auto simp: db_disconnect_def)
qed

theorem disconnect_marks_offline_witness:
  "currentUser two_tabs ''s1'' = Some ''A'' \<and>
   map_of (users two_tabs) ''A''
     = Some \<lparr>socketId = ''s2'', online = True, avatar = None, lastSeen = ''2'', status = None\<rparr> \<and>
   map_of (users (fst (disconnect ''s1'' (at_time 3) two_tabs))) ''A''
     = Some \<lparr>socketId = ''s2'', online = False, avatar = None, lastSeen = ''3'', status = None\<rparr> \<and>
   map fst (users (fst (disconnect ''s1'' (at_time 3) two_tabs))) = map fst (users two_tabs) \<and>
   known_user initial ''s1'' = None \<and>
   disconnect ''s1'' (at_time 3) initial = (initial, []) \<and>
   connectedUsers example_db 1 = Some ''s1'' \<and>
   connectedUsers (fst (db_disconnect spec_repositories ''s9'' \<lparr>row_id = 1, row_username = ''A''\<rparr>
      example_db)) = [2 \<mapsto> ''s2''] \<and>
   r_updateOnlineStatus rejecting_repositories 1 False (database example_db)
     = Inl PersistenceError \<and>
   db_disconnect rejecting_repositories ''s9'' \<lparr>row_id = 1, row_username = ''A''\<rparr> example_db
     = (example_db, [])"
proof -
  have 1: "currentUser two_tabs ''s1'' = Some ''A''"
    by (simp add: two_tabs_def run_defs)
  have 2: "map_of (users two_tabs) ''A''
     = Some \<lparr>socketId = ''s2'', online = True, avatar = None, lastSeen = ''2'', status = None\<rparr>"
    by (simp add: two_tabs_def run_defs)
  have 3: "known_user initial ''s1'' = None"
    by (simp add: known_user_def initial_def)
  have 4: "\<exists>d1. r_updateOnlineStatus spec_repositories (row_id \<lparr>row_id = 1, row_username = ''A''\<rparr>)
             False (database example_db) = Inr d1"
    by (simp add: spec_repositories_def updateOnlineStatus_def)
  have 5: "connectedUsers example_db 1 = Some ''s1''"
    by (simp add: example_db_def)
  have 6: "(connectedUsers example_db)(1 := None) = [2 \<mapsto> ''s2'']"
    by (auto simp: example_db_def)
  from 1 2 disconnect_marks_offline[of two_tabs "''s1''" "''A''"
      "\<lparr>socketId = ''s2'', online = True, avatar = None, lastSeen = ''2'', status = None\<rparr>"
      "at_time 3" spec_repositories "\<lparr>row_id = 1, row_username = ''A''\<rparr>" example_db "''s9''"]
  have a: "map_of (users (fst (disconnect ''s1'' (at_time 3) two_tabs))) ''A''
     = Some \<lparr>socketId = ''s2'', online = False, avatar = None, lastSeen = ''3'', status = None\<rparr> \<and>
   map fst (users (fst (disconnect ''s1'' (at_time 3) two_tabs))) = map fst (users two_tabs)"
    by (simp add: at_time_def show_nat.simps digit_def)
  from 3 disconnect_marks_offline[of initial "''s1''" "''A''"
      "\<lparr>socketId = ''s2'', online = True, avatar = None, lastSeen = ''2'', status = None\<rparr>"
      "at_time 3" spec_repositories "\<lparr>row_id = 1, row_username = ''A''\<rparr>" example_db "''s9''"]
  have b: "disconnect ''s1'' (at_time 3) initial = (initial, [])"
    by blast
  from 4 disconnect_marks_offline[of two_tabs "''s1''" "''A''"
      "\<lparr>socketId = ''s2'', online = True, avatar = None, lastSeen = ''2'', status = None\<rparr>"
      "at_time 3" spec_repositories "\<lparr>row_id = 1, row_username = ''A''\<rparr>" example_db "''s9''"]
  have c: "connectedUsers (fst (db_disconnect spec_repositories ''s9'' \<lparr>row_id = 1, row_username = ''A''\<rparr>
      example_db)) = [2 \<mapsto> ''s2'']"
    using 6 by simp
  have 7: "r_updateOnlineStatus rejecting_repositories 1 False (database example_db)
             = Inl PersistenceError"
    by (simp add: rejecting_repositories_def)
  then have "\<exists>f. r_updateOnlineStatus rejecting_repositories
                 (row_id \<lparr>row_id = 1, row_username = ''A''\<rparr>) False (database example_db) = Inl f"
    by simp
  with disconnect_marks_offline[of two_tabs "''s1''" "''A''"
      "\<lparr>socketId = ''s2'', online = True, avatar = None, lastSeen = ''2'', status = None\<rparr>"
      "at_time 3" rejecting_repositories "\<lparr>row_id = 1, row_username = ''A''\<rparr>" example_db "''s9''"]
  have d: "db_disconnect rejecting_repositories ''s9'' \<lparr>row_id = 1, row_username = ''A''\<rparr> example_db
     = (example_db, [])"
    by blast
  from 1 2 3 5 7 a b c d show ?thesis by simp
qed

section \<open>Group creation\<close>

text \<open>
  C4, as claimed: the member set is the member list and the creator with duplicates
  removed, and a request that leaves fewer than 2 members fails with ValidationError and
  creates no room. The handler validates nothing and removes nothing: with an empty member
  list \<open>A\<close> gets a room of one member, and a list that repeats names is stored as it
  is.
\<close>

theorem create_group_unvalidated:
  "map_option members
     (rooms (fst (create_group ''s1'' ''solo'' [] (at_time 3) two_tabs)) ''group_3'')
     = Some [Some ''A''] \<and>
   map_option members
     (rooms (fst (create_group ''s1'' ''pair'' [''B'', ''A'', ''B''] (at_time 3) two_tabs)) ''group_3'')
     = Some [Some ''B'', Some ''A'', Some ''B'', Some ''A'']"
  by (simp add: two_tabs_def run_defs)

text \<open>
  C4, amended: \<open>create_group\<close> always creates the room, under the id made of the clock
  reading, and never fails. The member list of the room is the requested list followed by
  the creator: as a set it is the requested members and the creator, but repeated names
  stay in the list, which is one longer than the request. The database-backed server
  does not validate either: a request with no members, whose room creation and
  \<open>addMember\<close> of the creator succeed, is answered with \<open>group_created\<close> for a room
  of the creator alone.
\<close>

theorem create_group_members:
  "(\<exists>r. rooms (fst (create_group sid groupName ms e s)) (''group_'' @ show_nat (now_ms e)) = Some r \<and>
        members r = map Some ms @ [currentUser s sid] \<and>
        set (members r) = Some ` set ms \<union> {currentUser s sid} \<and>
        length (members r) = length ms + 1 \<and>
        messages r = [] \<and> room_type r = type_group \<and> room_name r = groupName \<and>
        createdBy r = currentUser s sid) \<and>
   (r_create_room R \<lparr>rd_name = groupName, rd_type = type_group, rd_created_by = row_id user\<rparr>
       (database st) = Inr (room, d1) \<and>
    r_addMember R room (row_id user) d1 = Inr d2 \<longrightarrow>
      db_create_group R sid' user groupName [] st
        = (st\<lparr>database := d2\<rparr>,
           [(to_socket sid', db_group_created room groupName [row_username user]
                               (row_username user))]))"
  by (simp add: create_group_def db_create_group_def Let_def)

theorem create_group_members_witness:
  "r_create_room spec_repositories
      \<lparr>rd_name = ''solo'', rd_type = type_group, rd_created_by = 3\<rparr> (database example_db)
     = Inr (2, (database example_db)\<lparr>db_rooms :=
                 [\<lparr>cr_id = 1, cr_kind = type_group, cr_members = [1, 2]\<rparr>,
                  \<lparr>cr_id = 2, cr_kind = type_group, cr_members = []\<rparr>]\<rparr>) \<and>
   db_create_group spec_repositories ''s3'' \<lparr>row_id = 3, row_username = ''C''\<rparr> ''solo'' []
       example_db
     = (example_db\<lparr>database := (database example_db)\<lparr>db_rooms :=
                 [\<lparr>cr_id = 1, cr_kind = type_group, cr_members = [1, 2]\<rparr>,
                  \<lparr>cr_id = 2, cr_kind = type_group, cr_members = [3]\<rparr>]\<rparr>\<rparr>,
        [(to_socket ''s3'', db_group_created 2 ''solo'' [''C''] ''C'')])"
proof -
  let ?C = "\<lparr>row_id = 3, row_username = ''C''\<rparr>"
  let ?d1 = "(database example_db)\<lparr>db_rooms :=
                 [\<lparr>cr_id = 1, cr_kind = type_group, cr_members = [1, 2]\<rparr>,
                  \<lparr>cr_id = 2, cr_kind = type_group, cr_members = []\<rparr>]\<rparr>"
  let ?d2 = "(database example_db)\<lparr>db_rooms :=
                 [\<lparr>cr_id = 1, cr_kind = type_group, cr_members = [1, 2]\<rparr>,
                  \<lparr>cr_id = 2, cr_kind = type_group, cr_members = [3]\<rparr>]\<rparr>"
  have 1: "r_create_room spec_repositories
             \<lparr>rd_name = ''solo'', rd_type = type_group, rd_created_by = row_id ?C\<rparr>
             (database example_db) = Inr (2, ?d1)"
    by (simp add: spec_repositories_def create_room_def fresh_room_id_def example_db_def Let_def)
  have 2: "r_addMember spec_repositories 2 (row_id ?C) ?d1 = Inr ?d2"
    by (simp add: spec_repositories_def addMember_def example_db_def)
  from 1 2 create_group_members[of "''s1''" "''solo''" "[]" "at_time 3" two_tabs
      spec_repositories ?C example_db 2 ?d1 ?d2 "''s3''"]
  show ?thesis by simp
qed

section \<open>Group fan-out\<close>

lemma forEach_emit_filter:
  "forEach_emit us ms ev = map (\<lambda>m. (socket_of us m, ev)) (filter (online_user us) ms)"
  by (induction ms) (auto simp: online_user_def socket_of_def split: option.splits)

lemma db_forEach_emit_map_filter:
  "db_forEach_emit cu rows ev
     = List.map_filter (\<lambda>row. map_option (\<lambda>t. (to_socket t, ev)) (cu (row_id row))) rows"
  by (induction rows) (auto split: option.splits)

text \<open>
  C5, as claimed: every online member gets exactly one copy. The member list is not a set:
  in the room that lists \<open>A\<close> twice, one message of \<open>A\<close> is emitted twice to the socket
  of \<open>A\<close>.
\<close>

theorem send_group_duplicate_copies:
  "snd (send_group ''s1'' ''group_2'' ''hi'' (at_time 3) twice_listed)
     = [(''s1'', receive_group \<lparr>p_id = 3, p_from = Some ''A'', p_to = None,
                                p_roomId = Some ''group_2'', message = ''hi'', timestamp = ''3'',
                                p_type = type_group\<rparr>),
        (''s1'', receive_group \<lparr>p_id = 3, p_from = Some ''A'', p_to = None,
                                p_roomId = Some ''group_2'', message = ''hi'', timestamp = ''3'',
                                p_type = type_group\<rparr>)]"
  by (simp add: twice_listed_def run_defs)

text \<open>
  C5, amended: a message routed into a room by a member is emitted once for every
  occurrence, in the room's member list, of a user that is marked online, to the socket
  stored for that user (the sender included), and never for a user that is marked offline
  or is not in the list; so every online member gets exactly one copy when the list has no
  repetition. The database-backed server stores the message as \<open>messageData\<close> (of type
  \<open>file\<close> exactly when \<open>fileData\<close> is truthy) and then sends the copies to the rows
  that \<open>getRoomMembers\<close> returns, one for each row whose user has a socket in
  \<open>connectedUsers\<close>.
\<close>

theorem send_group_fan_out:
  "(rooms s rid = Some r \<and> currentUser s sid \<in> set (members r) \<longrightarrow>
      snd (send_group sid rid msg e s)
        = map (\<lambda>m. (socket_of (users s) m,
                      receive_group (group_payload (currentUser s sid) rid msg e)))
              (filter (online_user (users s)) (members r)) \<and>
      (distinct (members r) \<longrightarrow> distinct (filter (online_user (users s)) (members r)))) \<and>
   (r_isMember R room (row_id user) (database st) = Inr True \<and>
    r_create_message R (messageData room (row_id user) msg fileData) (database st)
      = Inr (saved, d1) \<and>
    r_getRoomMembers R room d1 = Inr rows \<longrightarrow>
      snd (db_send_group R sid' user room msg fileData e st)
        = List.map_filter
            (\<lambda>row. map_option
               (\<lambda>t. (to_socket t,
                      db_receive_group
                        \<lparr>dp_id = saved, dp_from = row_username user, dp_to = None,
                         dp_roomId = Some room, dp_message = msg, dp_fileData = fileData,
                         dp_timestamp = now_hm e, dp_type = type_group\<rparr>))
               (connectedUsers st (row_id row)))
            rows)"
  by (simp add: send_group_def db_send_group_def Let_def forEach_emit_filter
      db_forEach_emit_map_filter)

theorem send_group_fan_out_witness:
  "rooms devs_online ''group_4''
     = Some \<lparr>room_name = ''devs'', members = [Some ''B'', Some ''C'', Some ''A''], messages = [],
             room_type = type_group, createdBy = Some ''A'', createdAt = ''4''\<rparr> \<and>
   currentUser devs_online ''s1'' = Some ''A'' \<and>
   snd (send_group ''s1'' ''group_4'' ''hi'' (at_time 6) devs_online)
     = [(''s2'', receive_group (group_payload (Some ''A'') ''group_4'' ''hi'' (at_time 6))),
        (''s1'', receive_group (group_payload (Some ''A'') ''group_4'' ''hi'' (at_time 6)))] \<and>
   snd (db_send_group spec_repositories ''s1'' \<lparr>row_id = 1, row_username = ''A''\<rparr> 1 ''hi''
          (Some ''pic.png'') (at_time 6) example_db)
     = [(to_socket ''s1'',
         db_receive_group \<lparr>dp_id = 1, dp_from = ''A'', dp_to = None, dp_roomId = Some 1,
            dp_message = ''hi'', dp_fileData = Some ''pic.png'', dp_timestamp = ''6'', dp_type = type_group\<rparr>),
        (to_socket ''s2'',
         db_receive_group \<lparr>dp_id = 1, dp_from = ''A'', dp_to = None, dp_roomId = Some 1,
            dp_message = ''hi'', dp_fileData = Some ''pic.png'', dp_timestamp = ''6'', dp_type = type_group\<rparr>)]"
proof -
  let ?r = "\<lparr>room_name = ''devs'', members = [Some ''B'', Some ''C'', Some ''A''], messages = [],
             room_type = type_group, createdBy = Some ''A'', createdAt = ''4''\<rparr>"
  let ?A = "\<lparr>row_id = 1, row_username = ''A''\<rparr>"
  let ?md = "\<lparr>md_room_id = 1, md_user_id = 1, md_content = ''hi'',
              md_message_type = file_message, md_file_data = Some ''pic.png''\<rparr>"
  let ?d1 = "(database example_db)\<lparr>db_messages := [(1, ?md)]\<rparr>"
  have 1: "rooms devs_online ''group_4'' = Some ?r"
    by code_simp
  have 2: "currentUser devs_online ''s1'' = Some ''A''"
    by code_simp
  have 3: "users devs_online =
     [(''A'', \<lparr>socketId = ''s1'', online = True, avatar = None, lastSeen = ''1'', status = None\<rparr>),
      (''B'', \<lparr>socketId = ''s2'', online = True, avatar = None, lastSeen = ''2'', status = None\<rparr>),
      (''C'', \<lparr>socketId = ''s3'', online = False, avatar = None, lastSeen = ''5'', status = None\<rparr>)]"
    by code_simp
  have 4: "r_isMember spec_repositories 1 (row_id ?A) (database example_db) = Inr True"
    by (simp add: spec_repositories_def isMember_def example_db_def)
  have 5: "r_create_message spec_repositories
             (messageData 1 (row_id ?A) ''hi'' (Some ''pic.png'')) (database example_db)
             = Inr (1, ?d1)"
    by (simp add: spec_repositories_def create_message_def example_db_def Let_def
        messageData_def or_else_def)
  have 6: "r_getRoomMembers spec_repositories 1 ?d1
             = Inr [?A, \<lparr>row_id = 2, row_username = ''B''\<rparr>]"
    by (simp add: spec_repositories_def getRoomMembers_def example_db_def)
  from 1 2 4 5 6 send_group_fan_out[of devs_online "''group_4''" ?r "''s1''" "''hi''" "at_time 6"
      spec_repositories 1 ?A example_db "Some ''pic.png''" 1 ?d1 "[?A, \<lparr>row_id = 2, row_username = ''B''\<rparr>]" "''s1''"]
  show ?thesis
    by (simp add: 3 online_user_def socket_of_def users_get_def
        example_db_def at_time_def show_nat.simps digit_def)
qed

section \<open>Presence lists\<close>

lemma e_username_entry: "e_username (entry (name, info)) = name"
  by (simp add: entry_def)

lemma entry_fields:
  "entry (name, info)
     = \<lparr>e_username = name, e_online = online info, e_lastSeen = lastSeen info,
        e_avatar = avatar info,
        e_status = (case status info of None \<Rightarrow> ''available''
                    | Some v \<Rightarrow> if v = [] then ''available'' else v)\<rparr>"
  by (simp add: entry_def or_else_def split: option.splits)

lemma filteredUsers_names:
  "e_username ` set (filteredUsers us viewer) = fst ` set us - {viewer}"
  by (force simp: filteredUsers_def e_username_entry)

lemma filteredUsers_others:
  "(name, info) \<in> set us \<Longrightarrow> name \<noteq> viewer \<Longrightarrow> entry (name, info) \<in> set (filteredUsers us viewer)"
  by (force simp: filteredUsers_def)

text \<open>
  C8, as claimed: every \<open>user_list\<close> a viewer receives leaves the viewer out and holds
  every other known user. The database-backed server sends one list to all sockets: the
  sockets \<open>s1\<close> of \<open>A\<close> and \<open>s2\<close> of \<open>B\<close> receive the same list, which names
  both of them and does not name the offline user \<open>C\<close>.
\<close>

theorem broadcast_includes_viewer:
  "received ''s1'' (broadcastUsersList spec_repositories (database example_db))
     = [db_user_list [\<lparr>row_id = 1, row_username = ''A''\<rparr>, \<lparr>row_id = 2, row_username = ''B''\<rparr>]] \<and>
   received ''s2'' (broadcastUsersList spec_repositories (database example_db))
     = [db_user_list [\<lparr>row_id = 1, row_username = ''A''\<rparr>, \<lparr>row_id = 2, row_username = ''B''\<rparr>]]"
  by (simp add: received_def broadcastUsersList_def spec_repositories_def findOnlineUsers_def
      example_db_def)

text \<open>
  C8, amended: in the in-memory server every \<open>user_list\<close> of a presence refresh is
  addressed to the socket stored for one known user, the viewer; its names are the known
  users but the viewer, and every other known user is in it with its online flag, last-seen
  time, avatar and status (\<open>available\<close> when none is set), offline users too. In the
  database-backed server every socket receives the same list, the result of
  \<open>findOnlineUsers\<close>, whoever the viewer is.
\<close>

theorem user_list_contents:
  "(\<forall>t ev. (t, ev) \<in> set (sendUserLists us) \<longrightarrow>
      (\<exists>viewer data. (viewer, data) \<in> set us \<and> t = socketId data \<and>
                      ev = user_list (filteredUsers us viewer))) \<and>
   (\<forall>viewer. e_username ` set (filteredUsers us viewer) = fst ` set us - {viewer}) \<and>
   (\<forall>viewer name info. (name, info) \<in> set us \<and> name \<noteq> viewer \<longrightarrow>
      \<lparr>e_username = name, e_online = online info, e_lastSeen = lastSeen info,
       e_avatar = avatar info,
       e_status = (case status info of None \<Rightarrow> ''available''
                   | Some v \<Rightarrow> if v = [] then ''available'' else v)\<rparr>
        \<in> set (filteredUsers us viewer)) \<and>
   (r_findOnlineUsers R d = Inr onlineUsers \<longrightarrow>
      (\<forall>sid. received sid (broadcastUsersList R d) = [db_user_list onlineUsers]))"
proof (intro conjI allI impI)
  fix t ev
  assume "(t, ev) \<in> set (sendUserLists us)"
  then show "\<exists>viewer data. (viewer, data) \<in> set us \<and> t = socketId data \<and>
                            ev = user_list (filteredUsers us viewer)"
    by (auto simp: sendUserLists_def)
next
  fix viewer
  show "e_username ` set (filteredUsers us viewer) = fst ` set us - {viewer}"
    by (rule filteredUsers_names)
next
  fix viewer name info
  assume "(name, info) \<in> set us \<and> name \<noteq> viewer"
  then have "entry (name, info) \<in> set (filteredUsers us viewer)"
    by (simp add: filteredUsers_others)
  then show "\<lparr>e_username = name, e_online = online info, e_lastSeen = lastSeen info,
       e_avatar = avatar info,
       e_status = (case status info of None \<Rightarrow> ''available''
                   | Some v \<Rightarrow> if v = [] then ''available'' else v)\<rparr>
        \<in> set (filteredUsers us viewer)"
    by (simp only: entry_fields)
next
  fix sid
  assume "r_findOnlineUsers R d = Inr onlineUsers"
  then show "received sid (broadcastUsersList R d) = [db_user_list onlineUsers]"
    by (simp add: received_def broadcastUsersList_def)
qed

theorem user_list_contents_witness:
  "(''s1'', user_list
      [\<lparr>e_username = ''B'', e_online = True, e_lastSeen = ''2'', e_avatar = None,
        e_status = ''available''\<rparr>,
       \<lparr>e_username = ''C'', e_online = False, e_lastSeen = ''5'', e_avatar = None,
        e_status = ''available''\<rparr>]) \<in> set (sendUserLists (users devs_online)) \<and>
   e_username ` set (filteredUsers (users devs_online) ''A'') = {''B'', ''C''} \<and>
   \<lparr>e_username = ''C'', e_online = False, e_lastSeen = ''5'', e_avatar = None,
    e_status = ''available''\<rparr> \<in> set (filteredUsers (users devs_online) ''A'') \<and>
   r_findOnlineUsers spec_repositories (database example_db)
     = Inr [\<lparr>row_id = 1, row_username = ''A''\<rparr>, \<lparr>row_id = 2, row_username = ''B''\<rparr>] \<and>
   received ''s2'' (broadcastUsersList spec_repositories (database example_db))
     = [db_user_list [\<lparr>row_id = 1, row_username = ''A''\<rparr>, \<lparr>row_id = 2, row_username = ''B''\<rparr>]]"
proof -
  let ?C = "\<lparr>socketId = ''s3'', online = False, avatar = None, lastSeen = ''5'', status = None\<rparr>"
  let ?L = "[\<lparr>row_id = 1, row_username = ''A''\<rparr>, \<lparr>row_id = 2, row_username = ''B''\<rparr>]"
  have us: "users devs_online =
     [(''A'', \<lparr>socketId = ''s1'', online = True, avatar = None, lastSeen = ''1'', status = None\<rparr>),
      (''B'', \<lparr>socketId = ''s2'', online = True, avatar = None, lastSeen = ''2'', status = None\<rparr>),
      (''C'', ?C)]"
    by code_simp
  have 1: "(''s1'', user_list
      [\<lparr>e_username = ''B'', e_online = True, e_lastSeen = ''2'', e_avatar = None,
        e_status = ''available''\<rparr>,
       \<lparr>e_username = ''C'', e_online = False, e_lastSeen = ''5'', e_avatar = None,
        e_status = ''available''\<rparr>]) \<in> set (sendUserLists (users devs_online))"
    by (simp add: us sendUserLists_def filteredUsers_def entry_def or_else_def)
  have 2: "r_findOnlineUsers spec_repositories (database example_db) = Inr ?L"
    by (simp add: spec_repositories_def findOnlineUsers_def example_db_def)
  note inst = user_list_contents[of "users devs_online" spec_repositories "database example_db" ?L]
  have 3: "e_username ` set (filteredUsers (users devs_online) ''A'') = {''B'', ''C''}"
  proof -
    have "e_username ` set (filteredUsers (users devs_online) ''A'')
            = fst ` set (users devs_online) - {''A''}"
      by (rule spec[OF conjunct1[OF conjunct2[OF inst]]])
    also have "\<dots> = {''B'', ''C''}"
      by (simp add: us)
    finally show ?thesis .
  qed
  have 4: "\<lparr>e_username = ''C'', e_online = False, e_lastSeen = ''5'', e_avatar = None,
    e_status = ''available''\<rparr> \<in> set (filteredUsers (users devs_online) ''A'')"
  proof -
    have m: "(''C'', ?C) \<in> set (users devs_online) \<and> ''C'' \<noteq> ''A''"
      by (simp add: us)
    have "\<lparr>e_username = ''C'', e_online = online ?C, e_lastSeen = lastSeen ?C,
       e_avatar = avatar ?C,
       e_status = (case status ?C of None \<Rightarrow> ''available''
                   | Some v \<Rightarrow> if v = [] then ''available'' else v)\<rparr>
        \<in> set (filteredUsers (users devs_online) ''A'')"
      by (rule mp[OF spec[OF spec[OF spec[OF conjunct1[OF conjunct2[OF conjunct2[OF inst]]]]]] m])
    then show ?thesis by simp
  qed
  have 5: "received ''s2'' (broadcastUsersList spec_repositories (database example_db))
     = [db_user_list ?L]"
    by (rule spec[OF mp[OF conjunct2[OF conjunct2[OF conjunct2[OF inst]]] 2]])
  from 1 2 3 4 5 show ?thesis by simp
qed

end
